theory Spec2Isabelle
  imports Main
begin

section \<open>Python values\<close>

text \<open>
  A Python \<open>float\<close> is an IEEE double: a signed dyadic rational, an infinity or a NaN.
  \<open>Finite s m e\<close> stands for \<open>(-1)^s * m * 2^e\<close>; every finite double has this form,
  and the sign of a zero is kept (\<open>Finite True 0 0\<close> is \<open>-0.0\<close>).
\<close>

datatype pyfloat = Finite bool nat int | Infinity bool | NaN

fun is_finite :: "pyfloat \<Rightarrow> bool" where
  "is_finite (Finite s m e) = True"
| "is_finite (Infinity s) = False"
| "is_finite NaN = False"

text \<open>\<open>x > 0\<close> on floats (the \<open>gt=0\<close> constraint of the request schema).\<close>

fun float_gt0 :: "pyfloat \<Rightarrow> bool" where
  "float_gt0 (Finite s m e) = (\<not> s \<and> 0 < m)"
| "float_gt0 (Infinity s) = (\<not> s)"
| "float_gt0 NaN = False"

text \<open>\<open>bool(x)\<close> on floats: everything but a zero is true.\<close>

fun float_truthy :: "pyfloat \<Rightarrow> bool" where
  "float_truthy (Finite s m e) = (m \<noteq> 0)"
| "float_truthy (Infinity s) = True"
| "float_truthy NaN = True"

text \<open>A \<open>bytes\<close> object: a sequence of eight-bit characters.\<close>

datatype bytes = Bytes string

fun bytes_append :: "bytes \<Rightarrow> bytes \<Rightarrow> bytes" where
  "bytes_append (Bytes a) (Bytes b) = Bytes (a @ b)"

fun bytes_text :: "bytes \<Rightarrow> string" where
  "bytes_text (Bytes a) = a"

subsection \<open>JSON documents\<close>

text \<open>
  What \<open>json.loads\<close> returns: \<open>None\<close>, a bool, an int, a float, a str, a list or a dict.
  A dict is an association list; the first binding of a key is its value.
\<close>

datatype json = JNull | JBool bool | JInt int | JFloat pyfloat | JStr string
  | JArr "json list" | JObj "(string \<times> json) list"

text \<open>\<open>bool(v)\<close>, as \<open>if v\<close>, \<open>not v\<close> and \<open>a or b\<close> use it.\<close>

fun truthy :: "json \<Rightarrow> bool" where
  "truthy JNull = False"
| "truthy (JBool b) = b"
| "truthy (JInt n) = (n \<noteq> 0)"
| "truthy (JFloat x) = float_truthy x"
| "truthy (JStr s) = (s \<noteq> [])"
| "truthy (JArr xs) = (xs \<noteq> [])"
| "truthy (JObj kvs) = (kvs \<noteq> [])"

definition py_or :: "json \<Rightarrow> json \<Rightarrow> json" where
  "py_or a b = (if truthy a then a else b)"

subsection \<open>Exceptions\<close>

text \<open>
  An exception is a value. The message of an f-string is kept as the list of its parts,
  so that \<open>f"prefix: {e}"\<close> is \<open>[Str ''prefix: '', Exc e]\<close> and nothing has to be said
  about how \<open>str(e)\<close> prints.
\<close>

datatype exn = HTTPException nat "part list" | ValueError "part list" | AttributeError
  | JSONDecodeError | HTTPError string | IntegrityError | InterfaceError
  | MultipleResultsFound | ValidationError | OverflowError
and part = Str string | Val json | Exc exn

fun is_http_exception :: "exn \<Rightarrow> bool" where
  "is_http_exception (HTTPException c m) = True"
| "is_http_exception e = False"

text \<open>\<open>status_code\<close> of an \<open>HTTPException\<close>.\<close>

fun status_code :: "exn \<Rightarrow> nat option" where
  "status_code (HTTPException c m) = Some c"
| "status_code e = None"

text \<open>\<open>v.get(k)\<close>: only a dict has the method; a missing key gives \<open>None\<close>.\<close>

fun py_get :: "json \<Rightarrow> string \<Rightarrow> exn + json" where
  "py_get (JObj kvs) k = Inr (case map_of kvs k of None \<Rightarrow> JNull | Some v \<Rightarrow> v)"
| "py_get v k = Inl AttributeError"

text \<open>
  \<open>str.lower\<close> on the ASCII letters; other characters are left as they are. No
  character outside ASCII lower-cases to an ASCII letter that occurs in the five gateway
  status words, so the comparisons of \<open>handle_webhook\<close> come out as in Python.
  \<open>py_upper\<close> is the same for upper case; it serves in the sample inputs only
  (\<open>str.upper\<close> itself is a parameter of the model, see \<open>pylib\<close>).
\<close>

definition lower_char :: "char \<Rightarrow> char" where
  "lower_char c =
     (case map_of (zip ''ABCDEFGHIJKLMNOPQRSTUVWXYZ'' ''abcdefghijklmnopqrstuvwxyz'') c of
        None \<Rightarrow> c | Some l \<Rightarrow> l)"

definition upper_char :: "char \<Rightarrow> char" where
  "upper_char c =
     (case map_of (zip ''abcdefghijklmnopqrstuvwxyz'' ''ABCDEFGHIJKLMNOPQRSTUVWXYZ'') c of
        None \<Rightarrow> c | Some u \<Rightarrow> u)"

definition py_lower :: "string \<Rightarrow> string" where
  "py_lower s = map lower_char s"

definition py_upper :: "string \<Rightarrow> string" where
  "py_upper s = map upper_char s"

subsection \<open>Decimal rendering\<close>

definition digit_char :: "nat \<Rightarrow> char" where
  "digit_char d = ''0123456789'' ! (d mod 10)"

definition is_digit :: "char \<Rightarrow> bool" where
  "is_digit c = (c \<in> set ''0123456789'')"

fun decimal :: "nat \<Rightarrow> string" where
  "decimal n = (if n < 10 then [digit_char n] else decimal (n div 10) @ [digit_char (n mod 10)])"

text \<open>
  The number of hundredths nearest to \<open>m * 2^e\<close>, ties to the even neighbour: the
  correctly rounded conversion that Python's \<open>format(x, ".2f")\<close> performs on the exact
  binary value.
\<close>

definition hundredths :: "nat \<Rightarrow> int \<Rightarrow> nat" where
  "hundredths m e =
     (if 0 \<le> e then m * 100 * 2 ^ nat e
      else let d = 2 ^ nat (- e); q = (m * 100) div d; r = (m * 100) mod d
           in if 2 * r < d then q
              else if d < 2 * r then q + 1
              else if even q then q else q + 1)"

definition two_places :: "nat \<Rightarrow> string" where
  "two_places n = decimal (n div 100) @ ''.'' @ [digit_char (n mod 100 div 10), digit_char (n mod 10)]"

section \<open>Signature engine (app/services/geidea_manager.py)\<close>

text \<open>\<open>GeideaManager._format_amount_two_decimals\<close>: \<open>f"{amount:.2f}"\<close>.\<close>

fun format_amount_two_decimals :: "pyfloat \<Rightarrow> string" where
  "format_amount_two_decimals (Finite s m e) = (if s then ''-'' else '''') @ two_places (hundredths m e)"
| "format_amount_two_decimals (Infinity s) = (if s then ''-inf'' else ''inf'')"
| "format_amount_two_decimals NaN = ''nan''"

text \<open>A \<open>decimal.Decimal\<close>, given by the text it is built from.\<close>

datatype pydecimal = PyDecimal string

text \<open>
  The library functions the code calls are not part of the repository; they are
  parameters of the model: \<open>str.encode("utf-8")\<close>, \<open>bytes.decode("utf-8")\<close>,
  \<open>hmac.new(key, msg, hashlib.sha256).digest()\<close>, \<open>base64.b64encode\<close>,
  \<open>bind_text\<close>, the text the database driver stores for a value that is neither a
  string nor \<open>None\<close> when it is bound to a \<open>String\<close> column (\<open>None\<close> when the
  driver refuses the value), \<open>str.upper\<close> (which maps letters outside ASCII too and
  may change the length) and \<open>float\<close> of a \<open>Decimal\<close>.
\<close>

record pylib =
  encode_utf8 :: "string \<Rightarrow> bytes"
  decode_utf8 :: "bytes \<Rightarrow> string"
  hmac_sha256_digest :: "bytes \<Rightarrow> bytes \<Rightarrow> bytes"
  b64encode :: "bytes \<Rightarrow> bytes"
  bind_text :: "json \<Rightarrow> string option"
  str_upper :: "string \<Rightarrow> string"
  float_of_decimal :: "pydecimal \<Rightarrow> pyfloat"

text \<open>\<open>GeideaManager._generate_signature\<close>.\<close>

definition generate_signature ::
  "pylib \<Rightarrow> string \<Rightarrow> pyfloat \<Rightarrow> string \<Rightarrow> string \<Rightarrow> string \<Rightarrow> string \<Rightarrow> string" where
  "generate_signature lib merchant_public_key amount currency merchant_reference_id api_password timestamp =
     (let amount_str = format_amount_two_decimals amount;
          data = merchant_public_key @ amount_str @ currency @ merchant_reference_id @ timestamp;
          digest = hmac_sha256_digest lib (encode_utf8 lib api_password) (encode_utf8 lib data)
      in decode_utf8 lib (b64encode lib digest))"

text \<open>
  The shape the specification asks of a formatted amount: an optional minus sign, at
  least one digit, a \<open>.\<close> and exactly two digits.
\<close>

definition two_decimal_digits :: "string \<Rightarrow> bool" where
  "two_decimal_digits s =
     (case rev (if take 1 s = ''-'' then drop 1 s else s) of
        d2 # d1 # p # ip \<Rightarrow>
          is_digit d2 \<and> is_digit d1 \<and> p = CHR ''.'' \<and> ip \<noteq> [] \<and> list_all is_digit ip
      | _ \<Rightarrow> False)"

section \<open>Payment store (app/models.py, SQLAlchemy session)\<close>

text \<open>
  A row of the \<open>payments\<close> table: the values the columns hold. The two payload columns
  hold the text that \<open>json.dumps\<close> writes; the model keeps the document itself. The
  \<open>amount\<close> column is \<open>Numeric(10, 2)\<close>: SQLite keeps the float that was bound, and an
  object loaded or refreshed from the table has \<open>Decimal("%.2f" % value)\<close> as its
  \<open>amount\<close> attribute.
\<close>

record payment =
  payment_id :: int
  user_id :: int
  amount :: pyfloat
  currency :: string
  merchant_reference_id :: string
  geidea_order_id :: "string option"
  geidea_session_id :: "string option"
  card_token :: "string option"
  order_payload :: "json option"
  shipping_address_payload :: "json option"
  status :: string
  created_at :: string

text \<open>The \<open>amount\<close> attribute of a loaded payment, and \<open>float(payment.amount)\<close>.\<close>

definition numeric_result :: "pyfloat \<Rightarrow> pydecimal" where
  "numeric_result x = PyDecimal (format_amount_two_decimals x)"

definition float_amount :: "pylib \<Rightarrow> payment \<Rightarrow> pyfloat" where
  "float_amount lib p = float_of_decimal lib (numeric_result (amount p))"

text \<open>
  The session: the committed rows of the table, and the objects added or changed since
  the last commit. A request handler gets a session with nothing pending.
\<close>

record db =
  table :: "payment list"
  pending :: "payment list"

definition session_of :: "payment list \<Rightarrow> db" where
  "session_of rows = \<lparr>table = rows, pending = []\<rparr>"

text \<open>\<open>db.add(p)\<close>, and an attribute assignment on an object of the session.\<close>

definition add :: "payment \<Rightarrow> db \<Rightarrow> db" where
  "add p d = d\<lparr>pending := p # filter (\<lambda>q. payment_id q \<noteq> payment_id p) (pending d)\<rparr>"

definition upsert :: "payment \<Rightarrow> payment list \<Rightarrow> payment list" where
  "upsert p rows =
     (if payment_id p \<in> set (map payment_id rows)
      then map (\<lambda>q. if payment_id q = payment_id p then p else q) rows
      else rows @ [p])"

text \<open>
  The constraints of the table: the primary key, \<open>unique=True\<close> on
  \<open>merchant_reference_id\<close> and on \<open>geidea_order_id\<close> (where several \<open>NULL\<close>s may stand).
\<close>

definition unique_ok :: "payment list \<Rightarrow> bool" where
  "unique_ok rows =
     (distinct (map payment_id rows) \<and> distinct (map merchant_reference_id rows) \<and>
      distinct (List.map_filter geidea_order_id rows))"

text \<open>\<open>db.commit()\<close> raises when a constraint is violated, and writes nothing then.\<close>

definition commit :: "db \<Rightarrow> exn + db" where
  "commit d =
     (let rows = foldr upsert (pending d) (table d)
      in if unique_ok rows then Inr \<lparr>table = rows, pending = []\<rparr> else Inl IntegrityError)"

definition rollback :: "db \<Rightarrow> db" where
  "rollback d = d\<lparr>pending := []\<rparr>"

text \<open>The next \<open>INTEGER PRIMARY KEY\<close> of SQLite: one more than the largest in the table.\<close>

definition next_id :: "payment list \<Rightarrow> int" where
  "next_id rows = fold max (map payment_id rows) 0 + 1"

fun scalar_one_or_none :: "'a list \<Rightarrow> exn + 'a option" where
  "scalar_one_or_none [] = Inr None"
| "scalar_one_or_none [x] = Inr (Some x)"
| "scalar_one_or_none (x # y # zs) = Inl MultipleResultsFound"

text \<open>A Python value bound to a \<open>String\<close> column.\<close>

fun to_column :: "pylib \<Rightarrow> json \<Rightarrow> exn + string option" where
  "to_column lib JNull = Inr None"
| "to_column lib (JStr s) = Inr (Some s)"
| "to_column lib v = (case bind_text lib v of None \<Rightarrow> Inl InterfaceError | Some s \<Rightarrow> Inr (Some s))"

section \<open>Payment lifecycle manager (app/services/geidea_manager.py)\<close>

text \<open>The class attributes of \<open>GeideaManager\<close>, read from the settings.\<close>

record config =
  PUBLIC_KEY :: string
  API_PASSWORD :: string
  SESSION_URL :: string
  CALLBACK_URL :: string

text \<open>
  What a call reads from outside the program: the UUID drawn, the database clock, the
  UTC time formatted \<open>%Y/%m/%d %H:%M:%S\<close>, and the gateway's answer to the request
  posted. An answer is a network failure (\<open>httpx.HTTPError\<close>) or a response: its status
  code, its text, and the document \<open>resp.json()\<close> parses from it (\<open>None\<close> when the text is
  not JSON).
\<close>

record http_request =
  req_url :: string
  req_json :: json
  req_headers :: "(string \<times> string) list"

datatype http_result = ConnectError string | Response nat string "json option"

record environment =
  uuid4 :: string
  now :: string
  utcnow :: string
  post :: "http_request \<Rightarrow> http_result"

text \<open>The object that \<open>create_payment_record\<close> builds, with the id the table gives it.\<close>

definition new_payment :: "environment \<Rightarrow> int \<Rightarrow> pyfloat \<Rightarrow> string \<Rightarrow> payment list \<Rightarrow> payment" where
  "new_payment ev current_user amount' currency' rows =
     \<lparr>payment_id = next_id rows, user_id = current_user, amount = amount',
      currency = currency', merchant_reference_id = uuid4 ev, geidea_order_id = None,
      geidea_session_id = None, card_token = None, order_payload = None,
      shipping_address_payload = None, status = ''PENDING'', created_at = now ev\<rparr>"

text \<open>
  \<open>GeideaManager.create_payment_record\<close>. Its only caller passes the amount of a
  validated request, which is greater than 0: the \<open>NOT NULL\<close> failure of a NaN amount,
  which SQLite would store as \<open>NULL\<close>, is no branch of this model. The payment returned
  is the row committed; its attributes are read through \<open>float_amount\<close>.
\<close>

definition create_payment_record ::
  "environment \<Rightarrow> int \<Rightarrow> pyfloat \<Rightarrow> string \<Rightarrow> db \<Rightarrow> db \<times> (exn + payment)" where
  "create_payment_record ev current_user amount' currency' d =
     (let p = new_payment ev current_user amount' currency' (table d)
      in case commit (add p d) of
           Inr d' \<Rightarrow> (d', Inr p)
         | Inl e \<Rightarrow> (rollback (add p d),
             Inl (HTTPException 500 [Str ''Failed to create payment record: '', Exc e])))"

text \<open>The request that \<open>create_geidea_session\<close> builds (body, signature and headers).\<close>

definition session_request ::
  "pylib \<Rightarrow> config \<Rightarrow> string \<Rightarrow> payment \<Rightarrow> string \<Rightarrow> json option \<Rightarrow> json option \<Rightarrow> http_request" where
  "session_request lib cfg timestamp p language order' shipping_address =
     (let signature = generate_signature lib (PUBLIC_KEY cfg) (float_amount lib p) (currency p)
            (merchant_reference_id p) (API_PASSWORD cfg) timestamp;
          request_body =
            [(''amount'', JFloat (float_amount lib p)), (''currency'', JStr (currency p)),
             (''merchantReferenceId'', JStr (merchant_reference_id p)),
             (''timestamp'', JStr timestamp), (''signature'', JStr signature),
             (''callbackUrl'', JStr (CALLBACK_URL cfg)), (''language'', JStr language)]
            @ (case order' of None \<Rightarrow> [] | Some v \<Rightarrow> if truthy v then [(''order'', v)] else [])
            @ (case shipping_address of None \<Rightarrow> []
               | Some v \<Rightarrow> if truthy v then [(''shippingAddress'', v)] else []);
          basic_auth = decode_utf8 lib (b64encode lib
            (encode_utf8 lib (PUBLIC_KEY cfg @ '':'' @ API_PASSWORD cfg)))
      in \<lparr>req_url = SESSION_URL cfg, req_json = JObj request_body,
          req_headers = [(''Content-Type'', ''application/json''),
                         (''Authorization'', ''Basic '' @ basic_auth)]\<rparr>)"

text \<open>The success test on the response codes (line 131, negated).\<close>

definition codes_ok :: "json \<Rightarrow> json \<Rightarrow> bool" where
  "codes_ok response_code detailed_response_code =
     (\<not> (response_code \<noteq> JStr ''000'' \<or>
         detailed_response_code \<notin> set [JStr ''000'', JStr ''00000'', JNull]))"

text \<open>
  What \<open>create_geidea_session\<close> does with a response below 400 (lines 128 to 143): the
  checks on the parsed document, and the write of the session id.
\<close>

definition read_session_response :: "pylib \<Rightarrow> payment \<Rightarrow> json \<Rightarrow> db \<Rightarrow> db \<times> (exn + json)" where
  "read_session_response lib p data d =
     (case py_get data ''responseCode'' of
        Inl e \<Rightarrow> (d, Inl e)
      | Inr response_code \<Rightarrow>
     (case py_get data ''detailedResponseCode'' of
        Inl e \<Rightarrow> (d, Inl e)
      | Inr detailed_response_code \<Rightarrow>
          if \<not> codes_ok response_code detailed_response_code then
            (case py_get data ''detailedResponseMessage'' of
               Inl e \<Rightarrow> (d, Inl e)
             | Inr detailed_message \<Rightarrow>
            (case py_get data ''responseMessage'' of
               Inl e \<Rightarrow> (d, Inl e)
             | Inr response_message \<Rightarrow>
                 (d, Inl (HTTPException 400
                    [Str ''Geidea create session failed: '',
                     Val (py_or (py_or detailed_message response_message) (JStr ''Unknown error''))]))))
          else
            (case py_get data ''session'' of
               Inl e \<Rightarrow> (d, Inl e)
             | Inr session \<Rightarrow>
            (case py_get (py_or session (JObj [])) ''id'' of
               Inl e \<Rightarrow> (d, Inl e)
             | Inr session_id \<Rightarrow>
                 if \<not> truthy session_id then
                   (d, Inl (HTTPException 500 [Str ''Missing session id from Geidea response'']))
                 else
                   (case to_column lib session_id of
                      Inl e \<Rightarrow> (d, Inl e)
                    | Inr v \<Rightarrow>
                   (case commit (add (p\<lparr>geidea_session_id := v\<rparr>) d) of
                      Inl e \<Rightarrow> (add (p\<lparr>geidea_session_id := v\<rparr>) d, Inl e)
                    | Inr d' \<Rightarrow> (d', Inr session_id)))))))"

text \<open>
  The \<open>try\<close> block of \<open>GeideaManager.create_geidea_session\<close>. The result is the session,
  the requests posted to the gateway, and the session id or the exception raised.
\<close>

definition geidea_session_try ::
  "pylib \<Rightarrow> config \<Rightarrow> environment \<Rightarrow> payment \<Rightarrow> string \<Rightarrow> json option \<Rightarrow> json option \<Rightarrow> db
     \<Rightarrow> db \<times> http_request list \<times> (exn + json)" where
  "geidea_session_try lib cfg ev p language order' shipping_address d =
     (if PUBLIC_KEY cfg = [] \<or> API_PASSWORD cfg = [] then
        (d, [], Inl (HTTPException 500 [Str ''Geidea credentials are not configured on the server'']))
      else
        (let request = session_request lib cfg (utcnow ev) p language order' shipping_address
         in case post ev request of
              ConnectError exc \<Rightarrow>
                (d, [request],
                 Inl (HTTPException 502 [Str ''Failed to reach Geidea: '', Exc (HTTPError exc)]))
            | Response code body parsed \<Rightarrow>
                if 400 \<le> code then
                  (d, [request], Inl (HTTPException code [Str ''Geidea error: '', Str body]))
                else (case parsed of
                        None \<Rightarrow> (d, [request], Inl JSONDecodeError)
                      | Some data \<Rightarrow>
                          (case read_session_response lib p data d of
                             (d', r) \<Rightarrow> (d', [request], r)))))"

text \<open>
  \<open>GeideaManager.create_geidea_session\<close>: an \<open>HTTPException\<close> is raised again as it is,
  any other exception rolls back and becomes a 500.
\<close>

definition create_geidea_session ::
  "pylib \<Rightarrow> config \<Rightarrow> environment \<Rightarrow> payment \<Rightarrow> string \<Rightarrow> json option \<Rightarrow> json option \<Rightarrow> db
     \<Rightarrow> db \<times> http_request list \<times> (exn + json)" where
  "create_geidea_session lib cfg ev p language order' shipping_address d =
     (case geidea_session_try lib cfg ev p language order' shipping_address d of
        (d', sent, Inr session_id) \<Rightarrow> (d', sent, Inr session_id)
      | (d', sent, Inl e) \<Rightarrow>
          if is_http_exception e then (d', sent, Inl e)
          else (rollback d', sent,
                Inl (HTTPException 500 [Str ''Failed to create Geidea session: '', Exc e])))"

text \<open>The \<open>except Exception\<close> handler of \<open>create_payment_session\<close>.\<close>

definition session_failed ::
  "db \<Rightarrow> http_request list \<Rightarrow> exn \<Rightarrow> db \<times> http_request list \<times> (exn + json \<times> int)" where
  "session_failed d sent e =
     (rollback d, sent,
      Inl (HTTPException 500 [Str ''Failed to create payment session: '', Exc e]))"

text \<open>\<open>GeideaManager.create_payment_session\<close>.\<close>

definition create_payment_session ::
  "pylib \<Rightarrow> config \<Rightarrow> environment \<Rightarrow> int \<Rightarrow> pyfloat \<Rightarrow> string \<Rightarrow> string \<Rightarrow> json option \<Rightarrow> json option
     \<Rightarrow> db \<Rightarrow> db \<times> http_request list \<times> (exn + json \<times> int)" where
  "create_payment_session lib cfg ev current_user amount' currency' language order' shipping_address d =
     (case create_payment_record ev current_user amount' currency' d of
        (d1, Inl e) \<Rightarrow> session_failed d1 [] e
      | (d1, Inr p0) \<Rightarrow>
          let p1 = (case order' of None \<Rightarrow> p0 | Some v \<Rightarrow> p0\<lparr>order_payload := Some v\<rparr>);
              p2 = (case shipping_address of None \<Rightarrow> p1
                    | Some v \<Rightarrow> p1\<lparr>shipping_address_payload := Some v\<rparr>);
              d2 = (if order' \<noteq> None \<or> shipping_address \<noteq> None then add p2 d1 else d1)
          in (case commit d2 of
                Inl e \<Rightarrow> session_failed d2 [] e
              | Inr d3 \<Rightarrow>
                  (case create_geidea_session lib cfg ev p2 language order' shipping_address d3 of
                     (d4, sent, Inl e) \<Rightarrow> session_failed d4 sent e
                   | (d4, sent, Inr session_id) \<Rightarrow> (d4, sent, Inr (session_id, payment_id p2)))))"

text \<open>
  An integer that SQLite can hold. The driver raises \<open>OverflowError\<close> when a Python int
  outside 64 bits is bound to a statement.
\<close>

definition in_int64 :: "int \<Rightarrow> bool" where
  "in_int64 n = (- (2 ^ 63) \<le> n \<and> n < 2 ^ 63)"

text \<open>\<open>GeideaManager.get_payment_by_id\<close>.\<close>

definition get_payment_by_id :: "int \<Rightarrow> int \<Rightarrow> db \<Rightarrow> exn + payment option" where
  "get_payment_by_id current_user pid d =
     (case (if in_int64 pid \<and> in_int64 current_user
            then scalar_one_or_none
                   (filter (\<lambda>p. payment_id p = pid \<and> user_id p = current_user) (table d))
            else Inl OverflowError) of
        Inl e \<Rightarrow> Inl (HTTPException 500 [Str ''Failed to retrieve payment: '', Exc e])
      | Inr r \<Rightarrow> Inr r)"

text \<open>Lines 205 to 214 of \<open>handle_webhook\<close>: the status written to the payment.\<close>

definition webhook_update :: "pylib \<Rightarrow> payment \<Rightarrow> json \<Rightarrow> json \<Rightarrow> exn + payment" where
  "webhook_update lib p gateway_status order_id =
     (if \<not> truthy gateway_status then Inr (p\<lparr>status := ''UNKNOWN''\<rparr>)
      else (case gateway_status of
              JStr s \<Rightarrow>
                if py_lower s = ''success'' then
                  (case to_column lib order_id of
                     Inl e \<Rightarrow> Inl e
                   | Inr v \<Rightarrow> Inr (p\<lparr>status := ''SUCCESS'', geidea_order_id := v\<rparr>))
                else if py_lower s \<in> set [''failed'', ''declined''] then Inr (p\<lparr>status := ''FAILED''\<rparr>)
                else if py_lower s \<in> set [''cancelled'', ''canceled''] then
                  Inr (p\<lparr>status := ''CANCELLED''\<rparr>)
                else Inr (p\<lparr>status := ''UNKNOWN''\<rparr>)
            | _ \<Rightarrow> Inl AttributeError))"

text \<open>The \<open>try\<close> block of \<open>GeideaManager.handle_webhook\<close>.\<close>

definition webhook_try :: "pylib \<Rightarrow> json \<Rightarrow> db \<Rightarrow> db \<times> (exn + unit)" where
  "webhook_try lib payload d =
     (case py_get payload ''order'' of
        Inl e \<Rightarrow> (d, Inl e)
      | Inr order_data \<Rightarrow>
          if \<not> truthy order_data then
            (d, Inl (ValueError [Str ''Invalid webhook: Missing 'order' data'']))
          else
            (case py_get order_data ''merchantReferenceId'' of
               Inl e \<Rightarrow> (d, Inl e)
             | Inr reference \<Rightarrow>
            (case py_get order_data ''orderId'' of
               Inl e \<Rightarrow> (d, Inl e)
             | Inr order_id \<Rightarrow>
            (case py_get order_data ''status'' of
               Inl e \<Rightarrow> (d, Inl e)
             | Inr gateway_status \<Rightarrow>
                 if \<not> truthy reference then
                   (d, Inl (ValueError [Str ''Merchant reference ID not found in webhook payload'']))
                 else
                   (case to_column lib reference of
                      Inl e \<Rightarrow> (d, Inl e)
                    | Inr key \<Rightarrow>
                   (case scalar_one_or_none
                           (filter (\<lambda>p. Some (merchant_reference_id p) = key) (table d)) of
                      Inl e \<Rightarrow> (d, Inl e)
                    | Inr None \<Rightarrow>
                        (d, Inl (ValueError [Str ''Payment with merchant reference ID '',
                                             Val reference, Str '' not found'']))
                    | Inr (Some p) \<Rightarrow>
                        (case webhook_update lib p gateway_status order_id of
                           Inl e \<Rightarrow> (d, Inl e)
                         | Inr p' \<Rightarrow>
                             (case commit (add p' d) of
                                Inl e \<Rightarrow> (add p' d, Inl e)
                              | Inr d' \<Rightarrow> (d', Inr ())))))))))"

text \<open>
  \<open>GeideaManager.handle_webhook\<close>. The result is the session, the exception the handler
  printed (if any), and the value the method returns to its caller, which is \<open>None\<close> on
  every path.
\<close>

definition handle_webhook :: "pylib \<Rightarrow> json \<Rightarrow> db \<Rightarrow> db \<times> exn option \<times> json" where
  "handle_webhook lib payload d =
     (case webhook_try lib payload d of
        (d', Inl e) \<Rightarrow> (rollback d', Some e, JNull)
      | (d', Inr u) \<Rightarrow> (d', None, JNull))"

section \<open>Request schema and routes (app/schemas.py, app/routers/geidea_router.py)\<close>

text \<open>
  The body of a create-session request after JSON decoding, each field present or not,
  and the validated \<open>CreatePaymentRequest\<close>: \<open>amount\<close> is required and greater than 0,
  \<open>currency\<close> defaults to \<open>AED\<close> and has three characters, \<open>language\<close> defaults to \<open>en\<close>;
  the validator \<open>currency_upper\<close> runs on a supplied currency.
\<close>

record request_body =
  body_amount :: "pyfloat option"
  body_currency :: "string option"
  body_language :: "string option"
  body_order :: "json option"
  body_shippingAddress :: "json option"

datatype CreatePaymentRequest =
  CreatePaymentRequest pyfloat string string "json option" "json option"

definition currency_upper :: "pylib \<Rightarrow> string \<Rightarrow> string" where
  "currency_upper lib v = str_upper lib v"

definition validate_request :: "pylib \<Rightarrow> request_body \<Rightarrow> exn + CreatePaymentRequest" where
  "validate_request lib b =
     (case body_amount b of
        None \<Rightarrow> Inl ValidationError
      | Some a \<Rightarrow>
          if \<not> float_gt0 a then Inl ValidationError
          else (case (case body_currency b of
                        None \<Rightarrow> Inr ''AED''
                      | Some c \<Rightarrow> if length c = 3 then Inr (currency_upper lib c)
                                  else Inl ValidationError) of
                  Inl e \<Rightarrow> Inl e
                | Inr c \<Rightarrow>
                    Inr (CreatePaymentRequest a c
                          (case body_language b of None \<Rightarrow> ''en'' | Some l \<Rightarrow> l)
                          (body_order b) (body_shippingAddress b))))"

datatype CreatePaymentResponse = CreatePaymentResponse string int

datatype PaymentStatusResponse = PaymentStatusResponse int string pyfloat string string string

text \<open>\<open>except HTTPException: raise\<close>, \<open>except Exception as e: raise HTTPException(500, str(e))\<close>.\<close>

definition route_error :: "exn \<Rightarrow> exn" where
  "route_error e = (if is_http_exception e then e else HTTPException 500 [Exc e])"

text \<open>The route \<open>POST /payments/create-session\<close>.\<close>

definition route_create_session ::
  "pylib \<Rightarrow> config \<Rightarrow> environment \<Rightarrow> int \<Rightarrow> request_body \<Rightarrow> db
     \<Rightarrow> db \<times> http_request list \<times> (exn + CreatePaymentResponse)" where
  "route_create_session lib cfg ev current_user b d =
     (case validate_request lib b of
        Inl e \<Rightarrow> (d, [], Inl e)
      | Inr (CreatePaymentRequest amount' currency' language order' shipping_address) \<Rightarrow>
          (case create_payment_session lib cfg ev current_user amount' currency' language
                  order' shipping_address d of
             (d', sent, Inl e) \<Rightarrow> (d', sent, Inl (route_error e))
           | (d', sent, Inr (session_id, pid)) \<Rightarrow>
               (case session_id of
                  JStr s \<Rightarrow> (d', sent, Inr (CreatePaymentResponse s pid))
                | _ \<Rightarrow> (d', sent, Inl (route_error ValidationError)))))"

text \<open>The route \<open>GET /payments/status/{payment_id}\<close>.\<close>

definition get_payment_status :: "pylib \<Rightarrow> int \<Rightarrow> int \<Rightarrow> db \<Rightarrow> exn + PaymentStatusResponse" where
  "get_payment_status lib current_user pid d =
     (case get_payment_by_id current_user pid d of
        Inl e \<Rightarrow> Inl (route_error e)
      | Inr None \<Rightarrow> Inl (route_error (HTTPException 404 [Str ''Payment not found'']))
      | Inr (Some p) \<Rightarrow>
          Inr (PaymentStatusResponse (payment_id p) (status p) (float_amount lib p) (currency p)
                 (merchant_reference_id p) (created_at p)))"

text \<open>
  The route \<open>POST /payments/webhook\<close>. The body is \<open>None\<close> when \<open>request.json()\<close> cannot
  parse it.
\<close>

definition geidea_webhook :: "pylib \<Rightarrow> json option \<Rightarrow> db \<Rightarrow> db \<times> (exn + json)" where
  "geidea_webhook lib body d =
     (case body of
        None \<Rightarrow> (d, Inl (HTTPException 500 [Str ''Webhook processing failed: '', Exc JSONDecodeError]))
      | Some payload \<Rightarrow>
          (fst (handle_webhook lib payload d),
           Inr (JObj [(''status'', JStr ''success''),
                      (''message'', JStr ''Webhook processed successfully'')])))"

section \<open>The specification's words\<close>

text \<open>
  The status mapping as the specification words it: case-insensitively, \<open>success\<close> to
  SUCCESS, \<open>failed\<close> or \<open>declined\<close> to FAILED, \<open>cancelled\<close> or \<open>canceled\<close> to CANCELLED,
  anything else (an absent status too) to UNKNOWN.
\<close>

definition spec_status_map :: "string \<Rightarrow> string" where
  "spec_status_map s =
     (if py_lower s = ''success'' then ''SUCCESS''
      else if py_lower s = ''failed'' \<or> py_lower s = ''declined'' then ''FAILED''
      else if py_lower s = ''cancelled'' \<or> py_lower s = ''canceled'' then ''CANCELLED''
      else ''UNKNOWN'')"

definition spec_mapped_status :: "json \<Rightarrow> string" where
  "spec_mapped_status st = (case st of JStr s \<Rightarrow> spec_status_map s | _ \<Rightarrow> ''UNKNOWN'')"

text \<open>Whether a JSON value is a string (the only values with a \<open>lower\<close> method here).\<close>

fun is_str :: "json \<Rightarrow> bool" where
  "is_str (JStr s) = True"
| "is_str v = False"


definition replace_row :: "payment \<Rightarrow> payment list \<Rightarrow> payment list" where
  "replace_row p' rows = map (\<lambda>q. if payment_id q = payment_id p' then p' else q) rows"

definition order_id_taken :: "payment list \<Rightarrow> payment \<Rightarrow> string option \<Rightarrow> bool" where
  "order_id_taken rows p v =
     (case v of None \<Rightarrow> False
      | Some x \<Rightarrow> Some x \<in> set (map geidea_order_id (filter (\<lambda>q. payment_id q \<noteq> payment_id p) rows)))"


text \<open>
  The row that \<open>create_payment_session\<close> has committed before it calls the gateway: the new
  PENDING payment with the optional payloads attached.
\<close>

definition inserted_payment ::
  "environment \<Rightarrow> int \<Rightarrow> pyfloat \<Rightarrow> string \<Rightarrow> json option \<Rightarrow> json option \<Rightarrow> payment list \<Rightarrow> payment" where
  "inserted_payment ev current_user amount' currency' order' shipping_address rows =
     (new_payment ev current_user amount' currency' rows)
       \<lparr>order_payload := order', shipping_address_payload := shipping_address\<rparr>"







text \<open>The body with which the webhook route answers.\<close>

definition webhook_success_reply :: json where
  "webhook_success_reply =
     JObj [(''status'', JStr ''success''), (''message'', JStr ''Webhook processed successfully'')]"

text \<open>
  The currency of a validated request: the default \<open>AED\<close> when the body has none, the
  upper-cased code otherwise.
\<close>

definition spec_currency :: "pylib \<Rightarrow> request_body \<Rightarrow> string" where
  "spec_currency lib b = (case body_currency b of None \<Rightarrow> ''AED'' | Some c \<Rightarrow> str_upper lib c)"

section \<open>Sample inputs\<close>

text \<open>
  An instance of the library parameters for running the model on concrete inputs: the
  encoders take ASCII text to bytes and back, the digest and the base64 function are
  stand-ins that keep their arguments readable (key followed by message), the driver
  refuses every value that is not a string, upper-casing is that of ASCII text, and the
  float of a decimal is given for the amount of the samples, 100.00.
\<close>

definition sample_float :: "pydecimal \<Rightarrow> pyfloat" where
  "sample_float d = (if d = PyDecimal ''100.00'' then Finite False 100 0 else NaN)"

definition echo_lib :: pylib where
  "echo_lib = \<lparr>encode_utf8 = Bytes, decode_utf8 = bytes_text,
     hmac_sha256_digest = bytes_append, b64encode = (\<lambda>b. b), bind_text = (\<lambda>v. None),
     str_upper = py_upper, float_of_decimal = sample_float\<rparr>"

definition sample_payment :: payment where
  "sample_payment = \<lparr>payment_id = 1, user_id = 7, amount = Finite False 100 0, currency = ''AED'',
     merchant_reference_id = ''ref-1'', geidea_order_id = None, geidea_session_id = Some ''sess_1'',
     card_token = None, order_payload = None, shipping_address_payload = None,
     status = ''PENDING'', created_at = ''2025-01-01''\<rparr>"



definition webhook_payload :: "string \<Rightarrow> string \<Rightarrow> string \<Rightarrow> json" where
  "webhook_payload reference order_id gateway_status =
     JObj [(''order'', JObj [(''merchantReferenceId'', JStr reference),
                             (''orderId'', JStr order_id), (''status'', JStr gateway_status)])]"

text \<open>A configuration, and an environment in which the gateway gives one fixed answer.\<close>

definition sample_config :: config where
  "sample_config = \<lparr>PUBLIC_KEY = ''pk'', API_PASSWORD = ''secret'',
     SESSION_URL = ''https://api.example/payment-intent/api/v2/direct/session'',
     CALLBACK_URL = ''https://shop.example/callback''\<rparr>"

definition gateway_env :: "http_result \<Rightarrow> environment" where
  "gateway_env answer = \<lparr>uuid4 = ''ref-2'', now = ''2025-01-02'', utcnow = ''2025/01/02 10:00:00'',
     post = (\<lambda>request. answer)\<rparr>"

text \<open>Two gateway responses, and a payment to which no session is attached yet.\<close>

definition ok_response :: json where
  "ok_response = JObj [(''responseCode'', JStr ''000''), (''detailedResponseCode'', JStr ''000''),
     (''session'', JObj [(''id'', JStr ''sess_7'')])]"




text \<open>A create-session body with an amount of 100 and the given currency field.\<close>

definition request_of :: "string option \<Rightarrow> request_body" where
  "request_of c = \<lparr>body_amount = Some (Finite False 100 0), body_currency = c,
     body_language = None, body_order = None, body_shippingAddress = None\<rparr>"

section \<open>Properties\<close>

lemma is_digit_digit_char: "is_digit (digit_char d)"
  unfolding is_digit_def digit_char_def by (rule nth_mem) simp

lemma decimal_digits: "list_all is_digit (decimal n)"
proof (induction n rule: decimal.induct)
  case (1 n)
  show ?case
  proof (cases "n < 10")
    case True
    then show ?thesis by (simp add: is_digit_digit_char)
  next
    case False
    with 1 show ?thesis by (subst decimal.simps) (simp add: is_digit_digit_char)
  qed
qed

lemma decimal_nonempty: "decimal n \<noteq> []"
  by (subst decimal.simps) simp

subsection \<open>The formatted amount\<close>

lemma is_digit_not_minus: "is_digit c \<Longrightarrow> c \<noteq> CHR ''-''"
  by (auto simp: is_digit_def)

lemma take1_decimal: "take 1 (decimal n @ xs) \<noteq> ''-''"
proof -
  obtain c cs where d: "decimal n = c # cs"
    using decimal_nonempty [of n] by (cases "decimal n") auto
  have "list_all is_digit (decimal n)" by (rule decimal_digits)
  with d have "is_digit c" by simp
  then show ?thesis using d by (simp add: is_digit_not_minus)
qed

lemma two_places_shape: "two_decimal_digits (two_places n)"
  using take1_decimal [of "n div 100"] decimal_digits [of "n div 100"] decimal_nonempty [of "n div 100"]
  by (simp add: two_decimal_digits_def two_places_def is_digit_digit_char)

lemma minus_two_places_shape: "two_decimal_digits (''-'' @ two_places n)"
  using decimal_digits [of "n div 100"] decimal_nonempty [of "n div 100"]
  by (simp add: two_decimal_digits_def two_places_def is_digit_digit_char)

lemma format_finite_shape: "is_finite x \<Longrightarrow> two_decimal_digits (format_amount_two_decimals x)"
  using two_places_shape minus_two_places_shape by (cases x) auto

lemma format_ten: "format_amount_two_decimals (Finite False 10 0) = ''10.00''"
  by code_simp

text \<open>
  The signed message, for all inputs: the decoded base64 of the HMAC-SHA256 digest, keyed
  by the encoded API secret, of the encoded concatenation, without delimiters and in this
  order, of public key, formatted amount, currency, merchant reference id and timestamp.
  For every finite amount the formatted amount is an optional sign, digits, a \<open>.\<close> and
  exactly two digits (\<open>format_finite_shape\<close>).
\<close>

lemma generate_signature_message:
  "generate_signature lib pk x cur ref secret ts =
     decode_utf8 lib (b64encode lib (hmac_sha256_digest lib (encode_utf8 lib secret)
       (encode_utf8 lib (concat [pk, format_amount_two_decimals x, cur, ref, ts]))))"
  by (simp add: generate_signature_def)

lemma generate_signature_ten:
  "generate_signature echo_lib ''pk'' (Finite False 10 0) ''AED'' ''ref'' ''secret'' ''ts''
     = ''secretpk10.00AEDrefts''"
  unfolding generate_signature_message format_ten by (simp add: echo_lib_def)

text \<open>
  C2: the signed message holds the amount formatted with exactly two decimal digits, as
  the docstring of \<open>_format_amount_two_decimals\<close> says too. The code breaks this at an
  infinite amount, which is a float greater than 0: it is rendered \<open>inf\<close>, and the message
  signed is \<open>pk @ ''inf'' @ ...\<close>.
\<close>

theorem generate_signature_infinite_amount:
  "generate_signature echo_lib ''pk'' (Infinity False) ''AED'' ''ref'' ''secret'' ''ts'' = ''secretpkinfAEDrefts''
   \<and> format_amount_two_decimals (Infinity False) = ''inf''
   \<and> \<not> two_decimal_digits (format_amount_two_decimals (Infinity False))"
  by code_simp

subsection \<open>The session and the webhook handler\<close>

lemma commit_add_fresh:
  "commit (add p (session_of t)) =
     (if unique_ok (upsert p t) then Inr (session_of (upsert p t)) else Inl IntegrityError)"
  by (simp add: commit_def add_def session_of_def)

lemma rollback_add_fresh: "rollback (add p (session_of t)) = session_of t"
  by (simp add: rollback_def add_def session_of_def)

lemma rollback_fresh: "rollback (session_of t) = session_of t"
  by (simp add: rollback_def session_of_def)

lemma table_session_of: "table (session_of t) = t"
  by (simp add: session_of_def)

lemma py_get_Inr_obj: "py_get v k = Inr x \<Longrightarrow> \<exists>kvs. v = JObj kvs"
  by (cases v) auto

lemma py_get_total: "py_get (JObj kvs) k = Inr x \<Longrightarrow> \<exists>y. py_get (JObj kvs) k' = Inr y"
  by simp

lemma py_get_truthy: "py_get v k = Inr x \<Longrightarrow> truthy x \<Longrightarrow> truthy v"
  by (cases v) (auto split: option.splits)

lemma filter_unique:
  "distinct (map f xs) \<Longrightarrow> p \<in> set xs \<Longrightarrow> filter (\<lambda>q. f q = f p) xs = [p]"
proof (induction xs)
  case Nil
  then show ?case by simp
next
  case (Cons a xs)
  show ?case
  proof (cases "a = p")
    case True
    with Cons.prems have "\<forall>q\<in>set xs. f q \<noteq> f p" by (auto simp: image_iff)
    then have "filter (\<lambda>q. f q = f p) xs = []" by (simp add: filter_empty_conv)
    with True show ?thesis by simp
  next
    case False
    with Cons.prems have "p \<in> set xs" "f a \<noteq> f p" "distinct (map f xs)" by (auto simp: image_iff)
    with Cons.IH show ?thesis by simp
  qed
qed

lemma upsert_member:
  "p \<in> set t \<Longrightarrow> payment_id p' = payment_id p \<Longrightarrow>
   upsert p' t = map (\<lambda>q. if payment_id q = payment_id p then p' else q) t"
  by (auto simp: upsert_def)

lemma webhook_try_found:
  assumes "py_get payload ''order'' = Inr od"
    and "py_get od ''merchantReferenceId'' = Inr ref" and "truthy ref"
    and "py_get od ''orderId'' = Inr oid" and "py_get od ''status'' = Inr st"
    and "to_column lib ref = Inr key"
    and "filter (\<lambda>q. Some (merchant_reference_id q) = key) t = [p]"
  shows "webhook_try lib payload (session_of t) =
     (case webhook_update lib p st oid of
        Inl e \<Rightarrow> (session_of t, Inl e)
      | Inr p' \<Rightarrow> (if unique_ok (upsert p' t) then (session_of (upsert p' t), Inr ())
                   else (add p' (session_of t), Inl IntegrityError)))"
proof -
  have "truthy od" using assms(2,3) by (rule py_get_truthy)
  then show ?thesis
    using assms by (simp add: webhook_try_def table_session_of commit_add_fresh split: sum.splits)
qed




lemma set_map_filter: "set (List.map_filter f xs) = {y. \<exists>x\<in>set xs. f x = Some y}"
  by (induction xs) (auto simp: List.map_filter_simps split: option.splits)

lemma map_filter_append: "List.map_filter f (xs @ ys) = List.map_filter f xs @ List.map_filter f ys"
  by (simp add: List.map_filter_def)

lemma replace_row_split:
  assumes "distinct (map payment_id (xs @ p # ys))" and "payment_id p' = payment_id p"
  shows "replace_row p' (xs @ p # ys) = xs @ p' # ys"
proof -
  have "\<forall>q\<in>set xs. payment_id q \<noteq> payment_id p" "\<forall>q\<in>set ys. payment_id q \<noteq> payment_id p"
    using assms(1) by (auto simp: image_iff)
  then have "map (\<lambda>q. if payment_id q = payment_id p' then p' else q) xs = xs"
       "map (\<lambda>q. if payment_id q = payment_id p' then p' else q) ys = ys"
    using assms(2) by (auto intro: map_idI)
  then show ?thesis using assms(2) by (simp add: replace_row_def)
qed

lemma map_filter_single:
  "List.map_filter f [x] = (case f x of None \<Rightarrow> [] | Some y \<Rightarrow> [y])"
  by (simp split: option.splits)

lemma unique_ok_replace:
  assumes u: "unique_ok t" and m: "p \<in> set t"
    and i: "payment_id p' = payment_id p" and r: "merchant_reference_id p' = merchant_reference_id p"
  shows "unique_ok (replace_row p' t) \<longleftrightarrow> \<not> order_id_taken t p (geidea_order_id p')"
proof -
  let ?mf = "List.map_filter geidea_order_id"
  obtain xs ys where t: "t = xs @ p # ys" using m by (auto dest: split_list)
  have d: "distinct (map payment_id (xs @ p # ys))" using u t by (simp add: unique_ok_def)
  have dr: "distinct (map merchant_reference_id (xs @ p # ys))" using u t by (simp add: unique_ok_def)
  have dm: "distinct (?mf xs @ ?mf [p] @ ?mf ys)"
    using u unfolding unique_ok_def t by (simp only: map_filter_append [symmetric] append.simps)
  have "\<And>b. distinct (?mf xs @ b @ ?mf ys) \<Longrightarrow> distinct (?mf xs @ ?mf ys)" by auto
  from this [OF dm] have dd: "distinct (?mf xs @ ?mf ys)" .
  have rep: "replace_row p' t = xs @ p' # ys" using replace_row_split [OF d i] t by simp
  have nx: "\<forall>q\<in>set xs. payment_id q \<noteq> payment_id p" and ny: "\<forall>q\<in>set ys. payment_id q \<noteq> payment_id p"
    using d by (auto simp: image_iff)
  have other: "filter (\<lambda>q. payment_id q \<noteq> payment_id p) t = xs @ ys"
    using nx ny t by simp
  have e1: "map payment_id (xs @ p' # ys) = map payment_id (xs @ p # ys)" using i by simp
  have e2: "map merchant_reference_id (xs @ p' # ys) = map merchant_reference_id (xs @ p # ys)"
    using r by simp
  have e3: "?mf (xs @ p' # ys) = ?mf xs @ ?mf [p'] @ ?mf ys"
    by (simp only: map_filter_append [symmetric] append.simps)
  have k: "unique_ok (replace_row p' t) \<longleftrightarrow> distinct (?mf xs @ ?mf [p'] @ ?mf ys)"
    unfolding rep unique_ok_def e1 e2 e3 using d dr by simp
  show ?thesis
  proof (cases "geidea_order_id p'")
    case None
    then show ?thesis using k dd by (simp add: map_filter_single order_id_taken_def)
  next
    case (Some x)
    have "distinct (?mf xs @ ?mf [p'] @ ?mf ys) \<longleftrightarrow> x \<notin> set (?mf xs) \<and> x \<notin> set (?mf ys)"
      using dd Some by (auto simp: map_filter_single)
    also have "\<dots> \<longleftrightarrow> \<not> order_id_taken t p (Some x)"
      unfolding order_id_taken_def other set_map_filter by (auto simp: image_iff)
    finally show ?thesis using k Some by simp
  qed
qed

lemma upsert_replace: "p \<in> set t \<Longrightarrow> payment_id p' = payment_id p \<Longrightarrow> upsert p' t = replace_row p' t"
  by (auto simp: upsert_def replace_row_def)



lemma replace_row_same:
  assumes "unique_ok t" and "p \<in> set t"
  shows "replace_row p t = t"
proof -
  obtain xs ys where t: "t = xs @ p # ys" using assms(2) by (auto dest: split_list)
  have "distinct (map payment_id (xs @ p # ys))" using assms(1) t by (simp add: unique_ok_def)
  from replace_row_split [OF this, of p] t show ?thesis by simp
qed

lemma own_order_id_not_taken:
  assumes "unique_ok t" and "p \<in> set t"
  shows "\<not> order_id_taken t p (geidea_order_id p)"
  using unique_ok_replace [OF assms, of p] replace_row_same [OF assms] assms(1) by simp



lemma sample_unique: "unique_ok [sample_payment]"
  by (simp add: unique_ok_def List.map_filter_simps sample_payment_def)


lemma webhook_update_cases:
  "webhook_update lib p st oid =
     (if truthy st \<and> \<not> is_str st then Inl AttributeError
      else if spec_mapped_status st = ''SUCCESS'' then
        (case to_column lib oid of
           Inl e \<Rightarrow> Inl e
         | Inr v \<Rightarrow> Inr (p\<lparr>status := ''SUCCESS'', geidea_order_id := v\<rparr>))
      else Inr (p\<lparr>status := spec_mapped_status st\<rparr>))"
proof (cases st)
  case (JStr s)
  show ?thesis
  proof (cases "s = []")
    case True
    then show ?thesis using JStr
      by (simp add: webhook_update_def spec_mapped_status_def spec_status_map_def py_lower_def)
  next
    case False
    then have t: "truthy (JStr s)" by simp
    show ?thesis
    proof (cases "py_lower s = ''success''")
      case True
      then show ?thesis using t JStr
        unfolding webhook_update_def spec_mapped_status_def spec_status_map_def by simp
    next
      case ns: False
      show ?thesis
      proof (cases "py_lower s = ''failed'' \<or> py_lower s = ''declined''")
        case True
        then show ?thesis using ns t JStr
          unfolding webhook_update_def spec_mapped_status_def spec_status_map_def by auto
      next
        case nf: False
        show ?thesis
        proof (cases "py_lower s = ''cancelled'' \<or> py_lower s = ''canceled''")
          case True
          then show ?thesis using ns nf t JStr
            unfolding webhook_update_def spec_mapped_status_def spec_status_map_def by auto
        next
          case False
          then show ?thesis using ns nf t JStr
            unfolding webhook_update_def spec_mapped_status_def spec_status_map_def by auto
        qed
      qed
    qed
  qed
qed (simp_all add: webhook_update_def spec_mapped_status_def)

lemma handle_webhook_reached:
  assumes u: "unique_ok t" and m: "p \<in> set t"
    and o: "py_get payload ''order'' = Inr od"
    and r: "py_get od ''merchantReferenceId'' = Inr (JStr (merchant_reference_id p))"
    and ne: "merchant_reference_id p \<noteq> []"
    and oi: "py_get od ''orderId'' = Inr oid" and st: "py_get od ''status'' = Inr st"
  shows "handle_webhook lib payload (session_of t) =
     (if truthy st \<and> \<not> is_str st then (session_of t, Some AttributeError, JNull)
      else if spec_mapped_status st = ''SUCCESS'' then
        (case to_column lib oid of
           Inl e \<Rightarrow> (session_of t, Some e, JNull)
         | Inr v \<Rightarrow>
             if order_id_taken t p v then (session_of t, Some IntegrityError, JNull)
             else (session_of (replace_row (p\<lparr>status := ''SUCCESS'', geidea_order_id := v\<rparr>) t),
                   None, JNull))
      else (session_of (replace_row (p\<lparr>status := spec_mapped_status st\<rparr>) t), None, JNull))"
proof -
  have f: "filter (\<lambda>q. Some (merchant_reference_id q) = Some (merchant_reference_id p)) t = [p]"
    using filter_unique [of merchant_reference_id t p] u m by (simp add: unique_ok_def)
  have tr: "truthy (JStr (merchant_reference_id p))" using ne by simp
  have tc: "to_column lib (JStr (merchant_reference_id p)) = Inr (Some (merchant_reference_id p))"
    by simp
  note w = webhook_try_found [OF o r tr oi st tc f]
  have written: "(case (if unique_ok (upsert p' t) then (session_of (upsert p' t), Inr ())
                        else (add p' (session_of t), Inl IntegrityError)) of
                    (d', Inl e) \<Rightarrow> (rollback d', Some e, JNull)
                  | (d', Inr u) \<Rightarrow> (d', None, JNull))
                 = (if order_id_taken t p (geidea_order_id p') then (session_of t, Some IntegrityError, JNull)
                    else (session_of (replace_row p' t), None, JNull))"
    if "payment_id p' = payment_id p" "merchant_reference_id p' = merchant_reference_id p" for p'
    using unique_ok_replace [OF u m that] upsert_replace [OF m that(1)]
    by (simp add: rollback_add_fresh)
  show ?thesis
  proof (cases "truthy st \<and> \<not> is_str st")
    case True
    then show ?thesis
      unfolding handle_webhook_def w webhook_update_cases by (simp add: rollback_fresh)
  next
    case ok: False
    show ?thesis
    proof (cases "spec_mapped_status st = ''SUCCESS''")
      case True
      show ?thesis
      proof (cases "to_column lib oid")
        case (Inl e)
        then show ?thesis using ok True
          unfolding handle_webhook_def w webhook_update_cases by (auto simp: rollback_fresh)
      next
        case (Inr v)
        show ?thesis using ok True Inr
            written [of "p\<lparr>status := ''SUCCESS'', geidea_order_id := v\<rparr>"]
          unfolding handle_webhook_def w webhook_update_cases by auto
      qed
    next
      case False
      have nt: "\<not> order_id_taken t p (geidea_order_id (p\<lparr>status := spec_mapped_status st\<rparr>))"
        using own_order_id_not_taken [OF u m] by simp
      show ?thesis using ok False nt written [of "p\<lparr>status := spec_mapped_status st\<rparr>"]
        unfolding handle_webhook_def w webhook_update_cases by auto
    qed
  qed
qed









lemma lookup_none:
  "r \<notin> set (map merchant_reference_id t) \<Longrightarrow>
   filter (\<lambda>q. Some (merchant_reference_id q) = Some r) t = []"
  by (auto simp: filter_empty_conv)

lemma payload_order_obj: "py_get od k = Inr x \<Longrightarrow> \<exists>y. py_get od k' = Inr y"
  by (cases od) auto

text \<open>
  C4: a payload whose \<open>order\<close> is missing (or empty), whose merchant reference is missing
  (or empty), or whose merchant reference is that of no stored payment, is rejected with a
  \<open>ValueError\<close> that the handler catches: the table is as it was, no payment is created
  and the method returns normally.
\<close>

theorem webhook_rejected_no_change:
  assumes "py_get payload ''order'' = Inr od"
    and "\<not> truthy od
         \<or> (\<exists>ref. py_get od ''merchantReferenceId'' = Inr ref \<and> \<not> truthy ref)
         \<or> (\<exists>r. py_get od ''merchantReferenceId'' = Inr (JStr r)
                \<and> r \<notin> set (map merchant_reference_id t))"
  shows "\<exists>msg. handle_webhook lib payload (session_of t) = (session_of t, Some (ValueError msg), JNull)"
proof (cases "truthy od")
  case False
  then show ?thesis using assms(1)
    by (simp add: handle_webhook_def webhook_try_def rollback_fresh)
next
  case True
  then obtain ref where ref: "py_get od ''merchantReferenceId'' = Inr ref"
    and rej: "\<not> truthy ref \<or> (\<exists>r. ref = JStr r \<and> r \<notin> set (map merchant_reference_id t))"
    using assms(2) by auto
  obtain oid where oid: "py_get od ''orderId'' = Inr oid" using payload_order_obj [OF ref] by blast
  obtain st where st: "py_get od ''status'' = Inr st" using payload_order_obj [OF ref] by blast
  show ?thesis
  proof (cases "truthy ref")
    case False
    then show ?thesis using assms(1) True ref oid st
      by (simp add: handle_webhook_def webhook_try_def rollback_fresh)
  next
    case tr: True
    then obtain r where r: "ref = JStr r" "r \<notin> set (map merchant_reference_id t)" using rej by auto
    show ?thesis using assms(1) True tr ref oid st lookup_none [OF r(2)] r(1)
      by (simp add: handle_webhook_def webhook_try_def rollback_fresh table_session_of)
  qed
qed

theorem webhook_rejected_no_change_witness:
  "(\<exists>msg. handle_webhook echo_lib (JObj [(''status'', JStr ''Success'')]) (session_of [sample_payment])
      = (session_of [sample_payment], Some (ValueError msg), JNull))
   \<and> (\<exists>msg. handle_webhook echo_lib (JObj [(''order'', JObj [(''status'', JStr ''Success'')])])
        (session_of [sample_payment]) = (session_of [sample_payment], Some (ValueError msg), JNull))
   \<and> (\<exists>msg. handle_webhook echo_lib (webhook_payload ''ref-2'' ''ord_9'' ''Success'')
        (session_of [sample_payment]) = (session_of [sample_payment], Some (ValueError msg), JNull))"
proof -
  have a: "\<exists>msg. handle_webhook echo_lib (JObj [(''status'', JStr ''Success'')]) (session_of [sample_payment])
      = (session_of [sample_payment], Some (ValueError msg), JNull)"
    by (rule webhook_rejected_no_change [of _ JNull]) simp_all
  have b: "\<exists>msg. handle_webhook echo_lib (JObj [(''order'', JObj [(''status'', JStr ''Success'')])])
        (session_of [sample_payment]) = (session_of [sample_payment], Some (ValueError msg), JNull)"
    by (rule webhook_rejected_no_change [of _ "JObj [(''status'', JStr ''Success'')]"]) simp_all
  have c: "\<exists>msg. handle_webhook echo_lib (webhook_payload ''ref-2'' ''ord_9'' ''Success'')
        (session_of [sample_payment]) = (session_of [sample_payment], Some (ValueError msg), JNull)"
    by (rule webhook_rejected_no_change [of _ "JObj [(''merchantReferenceId'', JStr ''ref-2''),
           (''orderId'', JStr ''ord_9''), (''status'', JStr ''Success'')]"])
       (simp_all add: webhook_payload_def sample_payment_def)
  from a b c show ?thesis by blast
qed

lemma webhook_try_rollback:
  assumes "webhook_try lib payload (session_of t) = (d', Inl e)"
  shows "rollback d' = session_of t"
proof -
  have "d' = session_of t \<or> (\<exists>p'. d' = add p' (session_of t))"
    using assms
    by (auto simp: webhook_try_def split: sum.splits if_splits option.splits)
  then show ?thesis by (auto simp: rollback_fresh rollback_add_fresh)
qed

lemma handle_webhook_rolled_back:
  assumes "fst (snd (handle_webhook lib payload (session_of t))) = Some e"
  shows "fst (handle_webhook lib payload (session_of t)) = session_of t"
proof -
  obtain d' r where w: "webhook_try lib payload (session_of t) = (d', r)" by (cases "webhook_try lib payload (session_of t)")
  show ?thesis
  proof (cases r)
    case (Inl x)
    then show ?thesis using w webhook_try_rollback [of lib payload t d' x]
      by (simp add: handle_webhook_def)
  next
    case (Inr u)
    then show ?thesis using w assms by (simp add: handle_webhook_def)
  qed
qed

lemma webhook_not_object:
  "py_get payload ''order'' = Inl x \<Longrightarrow>
   handle_webhook lib payload (session_of t) = (session_of t, Some AttributeError, JNull)"
  by (cases payload) (simp_all add: handle_webhook_def webhook_try_def rollback_fresh)

lemma webhook_missing_order:
  "py_get payload ''order'' = Inr od \<Longrightarrow> \<not> truthy od \<Longrightarrow>
   handle_webhook lib payload (session_of t)
     = (session_of t, Some (ValueError [Str ''Invalid webhook: Missing 'order' data'']), JNull)"
  by (simp add: handle_webhook_def webhook_try_def rollback_fresh)

lemma webhook_missing_reference:
  assumes "py_get payload ''order'' = Inr od" and "truthy od"
    and "py_get od ''merchantReferenceId'' = Inr ref" and "\<not> truthy ref"
  shows "handle_webhook lib payload (session_of t)
     = (session_of t, Some (ValueError [Str ''Merchant reference ID not found in webhook payload'']), JNull)"
proof -
  obtain oid where oid: "py_get od ''orderId'' = Inr oid" using payload_order_obj [OF assms(3)] by blast
  obtain st where st: "py_get od ''status'' = Inr st" using payload_order_obj [OF assms(3)] by blast
  show ?thesis using assms oid st
    by (simp add: handle_webhook_def webhook_try_def rollback_fresh)
qed

lemma webhook_unknown_payment:
  assumes "py_get payload ''order'' = Inr od"
    and "py_get od ''merchantReferenceId'' = Inr (JStr r)" and "r \<noteq> []"
    and "r \<notin> set (map merchant_reference_id t)"
  shows "handle_webhook lib payload (session_of t)
     = (session_of t,
        Some (ValueError [Str ''Payment with merchant reference ID '', Val (JStr r), Str '' not found'']),
        JNull)"
proof -
  have tr: "truthy (JStr r)" using assms(3) by simp
  have t: "truthy od" using py_get_truthy [OF assms(2) tr] .
  obtain oid where oid: "py_get od ''orderId'' = Inr oid" using payload_order_obj [OF assms(2)] by blast
  obtain st where st: "py_get od ''status'' = Inr st" using payload_order_obj [OF assms(2)] by blast
  show ?thesis using assms(1,2,3) t oid st lookup_none [OF assms(4)]
    by (simp add: handle_webhook_def webhook_try_def rollback_fresh table_session_of)
qed

text \<open>
  C9 (as stated): the caller of \<open>handle_webhook\<close> can tell a failed reconciliation from a
  successful one. A webhook for an unknown payment fails and one for a stored payment
  succeeds, yet the method returns the same value (\<open>None\<close>) and the route gives the same
  reply in both cases.
\<close>

theorem webhook_failure_hidden_counterexample:
  "fst (snd (handle_webhook echo_lib (webhook_payload ''ref-2'' ''ord_9'' ''Success'') (session_of [sample_payment])))
     = Some (ValueError [Str ''Payment with merchant reference ID '', Val (JStr ''ref-2''), Str '' not found''])
   \<and> fst (snd (handle_webhook echo_lib (webhook_payload ''ref-1'' ''ord_9'' ''Success'') (session_of [sample_payment])))
     = None
   \<and> snd (snd (handle_webhook echo_lib (webhook_payload ''ref-2'' ''ord_9'' ''Success'') (session_of [sample_payment])))
     = snd (snd (handle_webhook echo_lib (webhook_payload ''ref-1'' ''ord_9'' ''Success'') (session_of [sample_payment])))
   \<and> snd (geidea_webhook echo_lib (Some (webhook_payload ''ref-2'' ''ord_9'' ''Success'')) (session_of [sample_payment]))
     = snd (geidea_webhook echo_lib (Some (webhook_payload ''ref-1'' ''ord_9'' ''Success'')) (session_of [sample_payment]))"
  by code_simp

text \<open>
  C9 (amended): \<open>handle_webhook\<close> returns \<open>None\<close> on every path. Every processing failure
  is caught, printed and rolled back, so that the session is as it was: a payload that is
  not an object, a missing \<open>order\<close>, a missing merchant reference, an unknown payment and
  a commit that the store refuses are such failures. The webhook route answers \<open>success\<close>
  to every payload that is JSON, whatever the outcome, and answers 500 only to a body that
  is not JSON.
\<close>

theorem webhook_failures_swallowed:
  "snd (snd (handle_webhook lib payload (session_of t))) = JNull
   \<and> (\<forall>e. fst (snd (handle_webhook lib payload (session_of t))) = Some e \<longrightarrow>
          fst (handle_webhook lib payload (session_of t)) = session_of t)
   \<and> (\<forall>x. py_get payload ''order'' = Inl x \<longrightarrow>
          fst (snd (handle_webhook lib payload (session_of t))) = Some AttributeError)
   \<and> (\<forall>od. py_get payload ''order'' = Inr od \<and> \<not> truthy od \<longrightarrow>
          fst (snd (handle_webhook lib payload (session_of t)))
            = Some (ValueError [Str ''Invalid webhook: Missing 'order' data'']))
   \<and> (\<forall>od ref. py_get payload ''order'' = Inr od \<and> truthy od
          \<and> py_get od ''merchantReferenceId'' = Inr ref \<and> \<not> truthy ref \<longrightarrow>
          fst (snd (handle_webhook lib payload (session_of t)))
            = Some (ValueError [Str ''Merchant reference ID not found in webhook payload'']))
   \<and> (\<forall>od r. py_get payload ''order'' = Inr od
          \<and> py_get od ''merchantReferenceId'' = Inr (JStr r) \<and> r \<noteq> []
          \<and> r \<notin> set (map merchant_reference_id t) \<longrightarrow>
          fst (snd (handle_webhook lib payload (session_of t)))
            = Some (ValueError [Str ''Payment with merchant reference ID '', Val (JStr r),
                                Str '' not found'']))
   \<and> (\<forall>p od oid st v. unique_ok t \<and> p \<in> set t \<and> py_get payload ''order'' = Inr od
          \<and> py_get od ''merchantReferenceId'' = Inr (JStr (merchant_reference_id p))
          \<and> merchant_reference_id p \<noteq> []
          \<and> py_get od ''orderId'' = Inr oid \<and> py_get od ''status'' = Inr st
          \<and> spec_mapped_status st = ''SUCCESS'' \<and> to_column lib oid = Inr v
          \<and> order_id_taken t p v \<longrightarrow>
          fst (snd (handle_webhook lib payload (session_of t))) = Some IntegrityError)
   \<and> geidea_webhook lib (Some payload) (session_of t)
       = (fst (handle_webhook lib payload (session_of t)), Inr webhook_success_reply)
   \<and> geidea_webhook lib None (session_of t)
       = (session_of t,
          Inl (HTTPException 500 [Str ''Webhook processing failed: '', Exc JSONDecodeError]))"
proof -
  have a: "snd (snd (handle_webhook lib payload (session_of t))) = JNull"
    by (simp add: handle_webhook_def split: prod.splits sum.splits)
  have s: "fst (snd (handle_webhook lib payload (session_of t))) = Some IntegrityError"
    if "unique_ok t" "p \<in> set t" "py_get payload ''order'' = Inr od"
       "py_get od ''merchantReferenceId'' = Inr (JStr (merchant_reference_id p))"
       "merchant_reference_id p \<noteq> []"
       "py_get od ''orderId'' = Inr oid" "py_get od ''status'' = Inr st"
       "spec_mapped_status st = ''SUCCESS''" "to_column lib oid = Inr v" "order_id_taken t p v"
    for p od oid st v
  proof -
    have "is_str st" using that(8) by (cases st) (simp_all add: spec_mapped_status_def)
    then show ?thesis
      unfolding handle_webhook_reached [OF that(1,2,3,4,5,6,7)] using that(8,9,10) by simp
  qed
  have g: "geidea_webhook lib (Some payload) (session_of t)
       = (fst (handle_webhook lib payload (session_of t)), Inr webhook_success_reply)"
    "geidea_webhook lib None (session_of t)
       = (session_of t, Inl (HTTPException 500 [Str ''Webhook processing failed: '', Exc JSONDecodeError]))"
    by (simp_all add: geidea_webhook_def webhook_success_reply_def)
  have c2: "\<forall>e. fst (snd (handle_webhook lib payload (session_of t))) = Some e \<longrightarrow>
          fst (handle_webhook lib payload (session_of t)) = session_of t"
    using handle_webhook_rolled_back [of lib payload t] by blast
  have c3: "\<forall>x. py_get payload ''order'' = Inl x \<longrightarrow>
          fst (snd (handle_webhook lib payload (session_of t))) = Some AttributeError"
    by (simp add: webhook_not_object)
  have c4: "\<forall>od. py_get payload ''order'' = Inr od \<and> \<not> truthy od \<longrightarrow>
          fst (snd (handle_webhook lib payload (session_of t)))
            = Some (ValueError [Str ''Invalid webhook: Missing 'order' data''])"
    by (simp add: webhook_missing_order)
  have c5: "\<forall>od ref. py_get payload ''order'' = Inr od \<and> truthy od
          \<and> py_get od ''merchantReferenceId'' = Inr ref \<and> \<not> truthy ref \<longrightarrow>
          fst (snd (handle_webhook lib payload (session_of t)))
            = Some (ValueError [Str ''Merchant reference ID not found in webhook payload''])"
    by (simp add: webhook_missing_reference)
  have c6: "\<forall>od r. py_get payload ''order'' = Inr od
          \<and> py_get od ''merchantReferenceId'' = Inr (JStr r) \<and> r \<noteq> []
          \<and> r \<notin> set (map merchant_reference_id t) \<longrightarrow>
          fst (snd (handle_webhook lib payload (session_of t)))
            = Some (ValueError [Str ''Payment with merchant reference ID '', Val (JStr r),
                                Str '' not found''])"
  proof (intro allI impI)
    fix od r
    assume h: "py_get payload ''order'' = Inr od
          \<and> py_get od ''merchantReferenceId'' = Inr (JStr r) \<and> r \<noteq> []
          \<and> r \<notin> set (map merchant_reference_id t)"
    then have "handle_webhook lib payload (session_of t)
     = (session_of t,
        Some (ValueError [Str ''Payment with merchant reference ID '', Val (JStr r), Str '' not found'']),
        JNull)"
      by (intro webhook_unknown_payment [of payload od r t lib]) simp_all
    then show "fst (snd (handle_webhook lib payload (session_of t)))
            = Some (ValueError [Str ''Payment with merchant reference ID '', Val (JStr r),
                                Str '' not found''])" by simp
  qed
  have c7: "\<forall>p od oid st v. unique_ok t \<and> p \<in> set t \<and> py_get payload ''order'' = Inr od
          \<and> py_get od ''merchantReferenceId'' = Inr (JStr (merchant_reference_id p))
          \<and> merchant_reference_id p \<noteq> []
          \<and> py_get od ''orderId'' = Inr oid \<and> py_get od ''status'' = Inr st
          \<and> spec_mapped_status st = ''SUCCESS'' \<and> to_column lib oid = Inr v
          \<and> order_id_taken t p v \<longrightarrow>
          fst (snd (handle_webhook lib payload (session_of t))) = Some IntegrityError"
    using s by blast
  show ?thesis
    apply (intro conjI)
            apply (rule a)
           apply (rule c2)
          apply (rule c3)
         apply (rule c4)
        apply (rule c5)
       apply (rule c6)
      apply (rule c7)
     apply (rule g(1))
    apply (rule g(2))
    done
qed

theorem webhook_failures_swallowed_witness:
  "handle_webhook echo_lib (webhook_payload ''ref-2'' ''ord_7'' ''Success'') (session_of [sample_payment])
     = (session_of [sample_payment],
        Some (ValueError [Str ''Payment with merchant reference ID '', Val (JStr ''ref-2''), Str '' not found'']),
        JNull)
   \<and> geidea_webhook echo_lib (Some (webhook_payload ''ref-2'' ''ord_7'' ''Success'')) (session_of [sample_payment])
     = (session_of [sample_payment], Inr webhook_success_reply)
   \<and> geidea_webhook echo_lib None (session_of [sample_payment])
     = (session_of [sample_payment],
        Inl (HTTPException 500 [Str ''Webhook processing failed: '', Exc JSONDecodeError]))"
proof -
  let ?w = "webhook_payload ''ref-2'' ''ord_7'' ''Success''"
  let ?od = "JObj [(''merchantReferenceId'', JStr ''ref-2''), (''orderId'', JStr ''ord_7''),
                   (''status'', JStr ''Success'')]"
  note t = webhook_failures_swallowed [of echo_lib ?w "[sample_payment]"]
  note ret = t [THEN conjunct1]
  note rolled = t [THEN conjunct2, THEN conjunct1, rule_format]
  note unknown = t [THEN conjunct2, THEN conjunct2, THEN conjunct2, THEN conjunct2, THEN conjunct2,
                    THEN conjunct1, rule_format, of ?od "''ref-2''"]
  note reply = t [THEN conjunct2, THEN conjunct2, THEN conjunct2, THEN conjunct2, THEN conjunct2,
                  THEN conjunct2, THEN conjunct2, THEN conjunct1]
  note nojson = t [THEN conjunct2, THEN conjunct2, THEN conjunct2, THEN conjunct2, THEN conjunct2,
                   THEN conjunct2, THEN conjunct2, THEN conjunct2]
  have p: "fst (snd (handle_webhook echo_lib ?w (session_of [sample_payment])))
      = Some (ValueError [Str ''Payment with merchant reference ID '', Val (JStr ''ref-2''), Str '' not found''])"
    by (rule unknown) (simp add: webhook_payload_def sample_payment_def)
  have d: "fst (handle_webhook echo_lib ?w (session_of [sample_payment])) = session_of [sample_payment]"
    by (rule rolled [OF p])
  have h: "handle_webhook echo_lib ?w (session_of [sample_payment])
     = (session_of [sample_payment],
        Some (ValueError [Str ''Payment with merchant reference ID '', Val (JStr ''ref-2''), Str '' not found'']),
        JNull)"
    using p d ret by (metis prod.collapse)
  show ?thesis using h reply nojson d by simp
qed

subsection \<open>Creating a session\<close>

lemma fold_max_ge: "(x::int) \<in> set xs \<Longrightarrow> x \<le> fold max xs a"
proof (induction xs arbitrary: a)
  case Nil
  then show ?case by simp
next
  case (Cons y ys)
  have mono: "\<And>b c. (b::int) \<le> c \<Longrightarrow> fold max ys b \<le> fold max ys c"
  proof -
    fix b c :: int assume "b \<le> c"
    then show "fold max ys b \<le> fold max ys c"
      by (induction ys arbitrary: b c) (auto simp: max_def)
  qed
  have ge: "\<And>b. (b::int) \<le> fold max ys b"
  proof -
    fix b :: int show "b \<le> fold max ys b"
    proof (induction ys arbitrary: b)
      case Nil then show ?case by simp
    next
      case (Cons z zs)
      have "b \<le> max z b" by simp
      also have "\<dots> \<le> fold max zs (max z b)" by (rule Cons.IH)
      finally show ?case by simp
    qed
  qed
  show ?case
  proof (cases "x = y")
    case True
    have "y \<le> max y a" by simp
    also have "\<dots> \<le> fold max ys (max y a)" by (rule ge)
    finally show ?thesis using True by simp
  next
    case False
    with Cons.prems have "x \<in> set ys" by simp
    from Cons.IH [OF this] show ?thesis by simp
  qed
qed

lemma next_id_fresh: "next_id t \<notin> set (map payment_id t)"
proof
  assume "next_id t \<in> set (map payment_id t)"
  from fold_max_ge [OF this, of 0] show False by (simp add: next_id_def)
qed

lemma upsert_new: "payment_id p \<notin> set (map payment_id t) \<Longrightarrow> upsert p t = t @ [p]"
  by (simp add: upsert_def)

lemma unique_ok_snoc:
  assumes "unique_ok t" and "payment_id p \<notin> set (map payment_id t)" and "geidea_order_id p = None"
  shows "unique_ok (t @ [p]) \<longleftrightarrow> merchant_reference_id p \<notin> set (map merchant_reference_id t)"
  using assms by (auto simp: unique_ok_def map_filter_append map_filter_single)

lemma create_payment_record_fresh:
  assumes "unique_ok t"
  shows "create_payment_record ev u a c (session_of t) =
     (if uuid4 ev \<in> set (map merchant_reference_id t)
      then (session_of t, Inl (HTTPException 500 [Str ''Failed to create payment record: '', Exc IntegrityError]))
      else (session_of (t @ [new_payment ev u a c t]), Inr (new_payment ev u a c t)))"
proof -
  let ?p = "new_payment ev u a c t"
  have i: "payment_id ?p \<notin> set (map payment_id t)" using next_id_fresh [of t] by (simp add: new_payment_def)
  have o: "geidea_order_id ?p = None" and r: "merchant_reference_id ?p = uuid4 ev"
    by (simp_all add: new_payment_def)
  show ?thesis
    using unique_ok_snoc [OF assms i o] r
    by (simp add: create_payment_record_def table_session_of commit_add_fresh upsert_new [OF i]
        rollback_add_fresh Let_def)
qed

lemma commit_fresh: "unique_ok t \<Longrightarrow> commit (session_of t) = Inr (session_of t)"
  by (simp add: commit_def session_of_def)

lemma read_session_response_error:
  "read_session_response lib p data d = (d', Inl e) \<Longrightarrow> table d' = table d"
  by (auto simp: read_session_response_def add_def split: sum.splits if_splits)

lemma geidea_session_try_error:
  "geidea_session_try lib cfg ev p language order' ship d = (d', sent, Inl e) \<Longrightarrow> table d' = table d"
  by (auto simp: geidea_session_try_def Let_def split: if_splits http_result.splits option.splits prod.splits
      dest: read_session_response_error)

lemma create_geidea_session_error:
  "create_geidea_session lib cfg ev p language order' ship d = (d', sent, Inl e) \<Longrightarrow> table d' = table d"
  by (auto simp: create_geidea_session_def rollback_def split: prod.splits sum.splits if_splits
      dest: geidea_session_try_error)

lemma payloads_attached:
  "(case ship of None \<Rightarrow> (case ord of None \<Rightarrow> p | Some v \<Rightarrow> p\<lparr>order_payload := Some v\<rparr>)
    | Some v \<Rightarrow> (case ord of None \<Rightarrow> p | Some v \<Rightarrow> p\<lparr>order_payload := Some v\<rparr>)\<lparr>shipping_address_payload := Some v\<rparr>)
   = p\<lparr>order_payload := (case ord of None \<Rightarrow> order_payload p | Some v \<Rightarrow> Some v),
        shipping_address_payload := (case ship of None \<Rightarrow> shipping_address_payload p | Some v \<Rightarrow> Some v)\<rparr>"
  by (cases p) (simp split: option.splits)

lemma create_payment_session_fresh:
  assumes u: "unique_ok t" and f: "uuid4 ev \<notin> set (map merchant_reference_id t)"
  shows "create_payment_session lib cfg ev cu a c language ord ship (session_of t) =
     (case create_geidea_session lib cfg ev (inserted_payment ev cu a c ord ship t) language ord ship
             (session_of (t @ [inserted_payment ev cu a c ord ship t])) of
        (d4, sent, Inl e) \<Rightarrow> session_failed d4 sent e
      | (d4, sent, Inr session_id) \<Rightarrow>
          (d4, sent, Inr (session_id, payment_id (inserted_payment ev cu a c ord ship t))))"
proof -
  let ?p0 = "new_payment ev cu a c t"
  let ?p2 = "inserted_payment ev cu a c ord ship t"
  have i: "payment_id ?p0 \<notin> set (map payment_id t)" using next_id_fresh [of t] by (simp add: new_payment_def)
  have o: "geidea_order_id ?p0 = None" and r: "merchant_reference_id ?p0 = uuid4 ev"
    by (simp_all add: new_payment_def)
  have u0: "unique_ok (t @ [?p0])" using unique_ok_snoc [OF u i o] r f by simp
  have i2: "payment_id ?p2 \<notin> set (map payment_id t)" using i by (simp add: inserted_payment_def)
  have o2: "geidea_order_id ?p2 = None" and r2: "merchant_reference_id ?p2 = uuid4 ev"
    by (simp_all add: inserted_payment_def new_payment_def)
  have u2: "unique_ok (t @ [?p2])" using unique_ok_snoc [OF u i2 o2] r2 f by simp
  have p2: "(case ship of None \<Rightarrow> (case ord of None \<Rightarrow> ?p0 | Some v \<Rightarrow> ?p0\<lparr>order_payload := Some v\<rparr>)
    | Some v \<Rightarrow> (case ord of None \<Rightarrow> ?p0 | Some v \<Rightarrow> ?p0\<lparr>order_payload := Some v\<rparr>)\<lparr>shipping_address_payload := Some v\<rparr>)
     = ?p2"
    unfolding payloads_attached by (simp add: inserted_payment_def new_payment_def split: option.splits)
  have same: "ord = None \<Longrightarrow> ship = None \<Longrightarrow> ?p2 = ?p0" by (simp add: inserted_payment_def new_payment_def)
  have "map (\<lambda>q. if payment_id q = payment_id ?p0 then ?p2 else q) t = t"
    using i by (intro map_idI) (auto simp: image_iff)
  moreover have "payment_id ?p2 = payment_id ?p0" by (simp add: inserted_payment_def)
  ultimately have up: "upsert ?p2 (t @ [?p0]) = t @ [?p2]"
    by (simp add: upsert_def)
  have c1: "commit (add ?p2 (session_of (t @ [?p0]))) = Inr (session_of (t @ [?p2]))"
    using u2 by (simp add: commit_add_fresh up)
  have c2: "ord = None \<Longrightarrow> ship = None \<Longrightarrow> commit (session_of (t @ [?p0])) = Inr (session_of (t @ [?p2]))"
    using same u0 by (simp add: commit_fresh)
  show ?thesis
    unfolding create_payment_session_def create_payment_record_fresh [OF u]
    using f same by (auto simp: Let_def p2 c1 c2)
qed

lemma commit_session_id:
  assumes "unique_ok t" and "p \<in> set t"
  shows "commit (add (p\<lparr>geidea_session_id := v\<rparr>) (session_of t))
         = Inr (session_of (replace_row (p\<lparr>geidea_session_id := v\<rparr>) t))"
proof -
  let ?p' = "p\<lparr>geidea_session_id := v\<rparr>"
  have i: "payment_id ?p' = payment_id p" and r: "merchant_reference_id ?p' = merchant_reference_id p"
    by simp_all
  have "unique_ok (replace_row ?p' t)"
    using unique_ok_replace [OF assms i r] own_order_id_not_taken [OF assms] by simp
  then show ?thesis by (simp add: commit_add_fresh upsert_replace [OF assms(2) i])
qed



text \<open>
  C3: when \<open>create_payment_session\<close> fails after the payment was inserted (every failure
  of the gateway call: network failure, HTTP status of 400 or more, gateway decline,
  missing session id), the table holds the inserted row as it was committed before the
  gateway call: PENDING, without a gateway session id, not deleted.
\<close>

theorem create_session_failure_keeps_payment:
  assumes "unique_ok t" and "uuid4 ev \<notin> set (map merchant_reference_id t)"
    and "snd (snd (create_payment_session lib cfg ev cu a c language ord ship (session_of t))) = Inl e"
  shows "fst (create_payment_session lib cfg ev cu a c language ord ship (session_of t))
           = session_of (t @ [inserted_payment ev cu a c ord ship t])
         \<and> status (inserted_payment ev cu a c ord ship t) = ''PENDING''
         \<and> geidea_session_id (inserted_payment ev cu a c ord ship t) = None"
proof -
  let ?p = "inserted_payment ev cu a c ord ship t"
  obtain d4 sent r where g: "create_geidea_session lib cfg ev ?p language ord ship (session_of (t @ [?p])) = (d4, sent, r)"
    by (metis prod_cases3)
  have cs: "create_payment_session lib cfg ev cu a c language ord ship (session_of t) =
     (case r of Inl e \<Rightarrow> session_failed d4 sent e | Inr sid \<Rightarrow> (d4, sent, Inr (sid, payment_id ?p)))"
    unfolding create_payment_session_fresh [OF assms(1,2)] g by simp
  from assms(3) obtain e' where r: "r = Inl e'"
    unfolding cs by (cases r) (auto simp: session_failed_def)
  have "table d4 = t @ [?p]"
    using create_geidea_session_error [OF g [unfolded r]] by (simp add: table_session_of)
  then have "rollback d4 = session_of (t @ [?p])"
    by (simp add: rollback_def session_of_def)
  then show ?thesis
    unfolding cs r by (simp add: session_failed_def inserted_payment_def new_payment_def)
qed



lemma geidea_session_rejected:
  assumes "PUBLIC_KEY cfg \<noteq> []" and "API_PASSWORD cfg \<noteq> []"
    and "post ev (session_request lib cfg (utcnow ev) p language ord ship) = Response code body parsed"
    and "400 \<le> code"
  shows "create_geidea_session lib cfg ev p language ord ship d =
     (d, [session_request lib cfg (utcnow ev) p language ord ship],
      Inl (HTTPException code [Str ''Geidea error: '', Str body]))"
  using assms by (simp add: create_geidea_session_def geidea_session_try_def Let_def)

theorem create_session_failure_keeps_payment_witness:
  "unique_ok [sample_payment] \<and> ''ref-2'' \<notin> set (map merchant_reference_id [sample_payment])
   \<and> snd (snd (create_payment_session echo_lib sample_config (gateway_env (Response 503 ''unavailable'' None))
         7 (Finite False 100 0) ''AED'' ''en'' None None (session_of [sample_payment])))
       = Inl (HTTPException 500 [Str ''Failed to create payment session: '',
                Exc (HTTPException 503 [Str ''Geidea error: '', Str ''unavailable''])])
   \<and> table (fst (create_payment_session echo_lib sample_config (gateway_env (Response 503 ''unavailable'' None))
         7 (Finite False 100 0) ''AED'' ''en'' None None (session_of [sample_payment])))
       = [sample_payment,
          \<lparr>payment_id = 2, user_id = 7, amount = Finite False 100 0, currency = ''AED'',
           merchant_reference_id = ''ref-2'', geidea_order_id = None, geidea_session_id = None,
           card_token = None, order_payload = None, shipping_address_payload = None,
           status = ''PENDING'', created_at = ''2025-01-02''\<rparr>]"
proof -
  let ?ev = "gateway_env (Response 503 ''unavailable'' None)"
  have f: "uuid4 ?ev \<notin> set (map merchant_reference_id [sample_payment])"
    by (simp add: gateway_env_def sample_payment_def)
  have k: "PUBLIC_KEY sample_config \<noteq> []" "API_PASSWORD sample_config \<noteq> []"
    by (simp_all add: sample_config_def)
  have g: "post ?ev (session_request echo_lib sample_config (utcnow ?ev)
             (inserted_payment ?ev 7 (Finite False 100 0) ''AED'' None None [sample_payment]) ''en'' None None)
           = Response 503 ''unavailable'' None"
    by (simp add: gateway_env_def)
  have e: "snd (snd (create_payment_session echo_lib sample_config ?ev
         7 (Finite False 100 0) ''AED'' ''en'' None None (session_of [sample_payment])))
       = Inl (HTTPException 500 [Str ''Failed to create payment session: '',
                Exc (HTTPException 503 [Str ''Geidea error: '', Str ''unavailable''])])"
    unfolding create_payment_session_fresh [OF sample_unique f] geidea_session_rejected [OF k g, simplified]
    by (simp add: session_failed_def)
  have i: "inserted_payment ?ev 7 (Finite False 100 0) ''AED'' None None [sample_payment]
     = \<lparr>payment_id = 2, user_id = 7, amount = Finite False 100 0, currency = ''AED'',
           merchant_reference_id = ''ref-2'', geidea_order_id = None, geidea_session_id = None,
           card_token = None, order_payload = None, shipping_address_payload = None,
           status = ''PENDING'', created_at = ''2025-01-02''\<rparr>"
    by (simp add: inserted_payment_def new_payment_def next_id_def gateway_env_def sample_payment_def)
  have f2: "''ref-2'' \<notin> set (map merchant_reference_id [sample_payment])"
    by (simp add: sample_payment_def)
  show ?thesis
    using create_session_failure_keeps_payment [OF sample_unique f e] f2 e
    by (simp add: i table_session_of sample_unique)
qed

lemma geidea_session_unreachable:
  assumes "PUBLIC_KEY cfg \<noteq> []" and "API_PASSWORD cfg \<noteq> []"
    and "post ev (session_request lib cfg (utcnow ev) p language ord ship) = ConnectError m"
  shows "create_geidea_session lib cfg ev p language ord ship d =
     (d, [session_request lib cfg (utcnow ev) p language ord ship],
      Inl (HTTPException 502 [Str ''Failed to reach Geidea: '', Exc (HTTPError m)]))"
  using assms by (simp add: create_geidea_session_def geidea_session_try_def Let_def)

text \<open>
  C5: a network failure of the gateway call is to reach the caller of
  \<open>create_payment_session\<close> as a bad-gateway error. \<open>create_geidea_session\<close> raises
  \<open>HTTPException(502)\<close> and passes it on, but the \<open>except Exception\<close> of
  \<open>create_payment_session\<close> catches it as well and raises a 500 that wraps it.
\<close>

theorem network_failure_surfaces_as_500:
  assumes "unique_ok t" and "uuid4 ev \<notin> set (map merchant_reference_id t)"
    and "PUBLIC_KEY cfg \<noteq> []" and "API_PASSWORD cfg \<noteq> []"
    and "post ev (session_request lib cfg (utcnow ev) (inserted_payment ev cu a c ord ship t) language ord ship)
           = ConnectError m"
  shows "snd (snd (create_geidea_session lib cfg ev (inserted_payment ev cu a c ord ship t) language ord ship
                     (session_of (t @ [inserted_payment ev cu a c ord ship t]))))
           = Inl (HTTPException 502 [Str ''Failed to reach Geidea: '', Exc (HTTPError m)])
         \<and> snd (snd (create_payment_session lib cfg ev cu a c language ord ship (session_of t)))
           = Inl (HTTPException 500 [Str ''Failed to create payment session: '',
                    Exc (HTTPException 502 [Str ''Failed to reach Geidea: '', Exc (HTTPError m)])])"
  unfolding create_payment_session_fresh [OF assms(1,2)] geidea_session_unreachable [OF assms(3,4,5)]
  by (simp add: session_failed_def)

theorem network_failure_surfaces_as_500_witness:
  "unique_ok [sample_payment] \<and> PUBLIC_KEY sample_config \<noteq> [] \<and> API_PASSWORD sample_config \<noteq> []
   \<and> snd (snd (create_payment_session echo_lib sample_config (gateway_env (ConnectError ''timed out''))
         7 (Finite False 100 0) ''AED'' ''en'' None None (session_of [sample_payment])))
       = Inl (HTTPException 500 [Str ''Failed to create payment session: '',
                Exc (HTTPException 502 [Str ''Failed to reach Geidea: '', Exc (HTTPError ''timed out'')])])
   \<and> status_code (HTTPException 500 [Str ''Failed to create payment session: '',
                Exc (HTTPException 502 [Str ''Failed to reach Geidea: '', Exc (HTTPError ''timed out'')])])
       = Some 500"
proof -
  let ?ev = "gateway_env (ConnectError ''timed out'')"
  have f: "uuid4 ?ev \<notin> set (map merchant_reference_id [sample_payment])"
    by (simp add: gateway_env_def sample_payment_def)
  have k: "PUBLIC_KEY sample_config \<noteq> []" "API_PASSWORD sample_config \<noteq> []"
    by (simp_all add: sample_config_def)
  have g: "post ?ev (session_request echo_lib sample_config (utcnow ?ev)
             (inserted_payment ?ev 7 (Finite False 100 0) ''AED'' None None [sample_payment]) ''en'' None None)
           = ConnectError ''timed out''"
    by (simp add: gateway_env_def)
  show ?thesis
    using network_failure_surfaces_as_500 [OF sample_unique f k g] k
    by (simp add: sample_unique)
qed


lemma geidea_session_parsed:
  assumes "PUBLIC_KEY cfg \<noteq> []" and "API_PASSWORD cfg \<noteq> []"
    and "post ev (session_request lib cfg (utcnow ev) p language ord ship) = Response code body (Some data)"
    and "code < 400"
  shows "geidea_session_try lib cfg ev p language ord ship d =
     (fst (read_session_response lib p data d),
      [session_request lib cfg (utcnow ev) p language ord ship],
      snd (read_session_response lib p data d))"
  using assms by (simp add: geidea_session_try_def Let_def split: prod.splits)












subsection \<open>Reading a payment\<close>

lemma lookup_other_owner:
  assumes "unique_ok t" and "p \<in> set t" and "user_id p \<noteq> b"
  shows "filter (\<lambda>q. payment_id q = payment_id p \<and> user_id q = b) t = []"
proof -
  have "filter (\<lambda>q. payment_id q = payment_id p) t = [p]"
    using filter_unique [of payment_id t p] assms(1,2) by (simp add: unique_ok_def)
  then have "filter (\<lambda>q. user_id q = b) (filter (\<lambda>q. payment_id q = payment_id p) t) = []"
    using assms(3) by simp
  then show ?thesis by (simp add: conj_commute)
qed

lemma lookup_owner:
  assumes "unique_ok t" and "p \<in> set t"
  shows "filter (\<lambda>q. payment_id q = payment_id p \<and> user_id q = user_id p) t = [p]"
proof -
  have "filter (\<lambda>q. payment_id q = payment_id p) t = [p]"
    using filter_unique [of payment_id t p] assms(1,2) by (simp add: unique_ok_def)
  then have "filter (\<lambda>q. user_id q = user_id p) (filter (\<lambda>q. payment_id q = payment_id p) t) = [p]"
    by simp
  then show ?thesis by (simp add: conj_commute)
qed

lemma lookup_missing:
  "pid \<notin> set (map payment_id t) \<Longrightarrow> filter (\<lambda>q. payment_id q = pid \<and> user_id q = b) t = []"
  by (auto simp: filter_empty_conv)

text \<open>
  C8: for a payment owned by user A and any other user B, the status route answers B with
  404 \<open>Payment not found\<close>, the very answer it gives for every id that no payment has
  and that the database can hold (an id outside 64 bits makes the driver raise, which the
  route answers with 500): the owner is part of the lookup query. The owner gets the
  payment's view, with the amount as the \<open>Numeric(10, 2)\<close> column gives it back. The id of
  the stored payment and the id of the authenticated user B are integer keys of stored
  rows, hence within 64 bits.
\<close>

theorem status_hidden_from_other_user:
  assumes "unique_ok t" and "p \<in> set t" and "user_id p \<noteq> b"
    and "in_int64 (payment_id p)" and "in_int64 b"
  shows "get_payment_status lib b (payment_id p) (session_of t)
           = Inl (HTTPException 404 [Str ''Payment not found''])
         \<and> (\<forall>pid. pid \<notin> set (map payment_id t) \<longrightarrow>
               get_payment_status lib b pid (session_of t)
                 = (if in_int64 pid then Inl (HTTPException 404 [Str ''Payment not found''])
                    else Inl (HTTPException 500 [Str ''Failed to retrieve payment: '',
                                                 Exc OverflowError])))
         \<and> (in_int64 (user_id p) \<longrightarrow>
               get_payment_status lib (user_id p) (payment_id p) (session_of t)
                 = Inr (PaymentStatusResponse (payment_id p) (status p) (float_amount lib p)
                          (currency p) (merchant_reference_id p) (created_at p)))"
  using lookup_other_owner [OF assms(1,2,3)] lookup_owner [OF assms(1,2)] lookup_missing [of _ t b]
    assms(4,5)
  by (simp add: get_payment_status_def get_payment_by_id_def table_session_of route_error_def)

theorem status_hidden_from_other_user_witness:
  "unique_ok [sample_payment] \<and> user_id sample_payment = 7 \<and> in_int64 1 \<and> in_int64 8
   \<and> get_payment_status echo_lib 8 1 (session_of [sample_payment])
       = Inl (HTTPException 404 [Str ''Payment not found''])
   \<and> get_payment_status echo_lib 8 5 (session_of [sample_payment])
       = Inl (HTTPException 404 [Str ''Payment not found''])
   \<and> get_payment_status echo_lib 8 9223372036854775808 (session_of [sample_payment])
       = Inl (HTTPException 500 [Str ''Failed to retrieve payment: '', Exc OverflowError])
   \<and> get_payment_status echo_lib 7 1 (session_of [sample_payment])
       = Inr (PaymentStatusResponse 1 ''PENDING'' (Finite False 100 0) ''AED'' ''ref-1'' ''2025-01-01'')"
proof -
  have m: "sample_payment \<in> set [sample_payment]" by simp
  have o: "user_id sample_payment \<noteq> 8" by (simp add: sample_payment_def)
  have r: "in_int64 1" "in_int64 8" "in_int64 5" "in_int64 7" "\<not> in_int64 9223372036854775808"
    by (simp_all add: in_int64_def)
  have f: "(5::int) \<notin> set (map payment_id [sample_payment])"
    "(9223372036854775808::int) \<notin> set (map payment_id [sample_payment])"
    by (simp_all add: sample_payment_def)
  have i: "payment_id sample_payment = 1" "user_id sample_payment = 7" "status sample_payment = ''PENDING''"
    "currency sample_payment = ''AED''"
    "merchant_reference_id sample_payment = ''ref-1''" "created_at sample_payment = ''2025-01-01''"
    by (simp_all add: sample_payment_def)
  have fa: "float_amount echo_lib sample_payment = Finite False 100 0"
  proof -
    have "format_amount_two_decimals (Finite False 100 0) = ''100.00''"
      by (simp add: two_places_def hundredths_def digit_char_def)
    then show ?thesis
      by (simp add: float_amount_def numeric_result_def echo_lib_def sample_float_def sample_payment_def
          del: format_amount_two_decimals.simps)
  qed
  note t = status_hidden_from_other_user [of "[sample_payment]" sample_payment 8 echo_lib,
      OF sample_unique m o, unfolded i, OF r(1,2)]
  from t have a: "get_payment_status echo_lib 8 5 (session_of [sample_payment])
      = Inl (HTTPException 404 [Str ''Payment not found''])"
    using f(1) r(3) by simp
  from t have b: "get_payment_status echo_lib 8 9223372036854775808 (session_of [sample_payment])
      = Inl (HTTPException 500 [Str ''Failed to retrieve payment: '', Exc OverflowError])"
    using f(2) r(5) by simp
  show ?thesis using t a b r sample_unique by (simp add: i fa)
qed

subsection \<open>The create-session route\<close>

lemma read_session_response_table:
  assumes "unique_ok t" and "p \<in> set t"
  shows "table (fst (read_session_response lib p data (session_of t))) = t
         \<or> (\<exists>v. table (fst (read_session_response lib p data (session_of t)))
                  = replace_row (p\<lparr>geidea_session_id := v\<rparr>) t)"
  by (auto simp: read_session_response_def commit_session_id [OF assms] table_session_of
      split: sum.splits)

lemma geidea_session_try_table:
  assumes "unique_ok t" and "p \<in> set t"
  shows "table (fst (geidea_session_try lib cfg ev p language ord ship (session_of t))) = t
         \<or> (\<exists>v. table (fst (geidea_session_try lib cfg ev p language ord ship (session_of t)))
                  = replace_row (p\<lparr>geidea_session_id := v\<rparr>) t)"
proof (cases "PUBLIC_KEY cfg \<noteq> [] \<and> API_PASSWORD cfg \<noteq> [] \<and>
    (\<exists>code body data. post ev (session_request lib cfg (utcnow ev) p language ord ship)
        = Response code body (Some data) \<and> code < 400)")
  case True
  then obtain code body data where k: "PUBLIC_KEY cfg \<noteq> []" "API_PASSWORD cfg \<noteq> []"
    and g: "post ev (session_request lib cfg (utcnow ev) p language ord ship) = Response code body (Some data)"
    and c: "code < 400" by blast
  show ?thesis
    unfolding geidea_session_parsed [OF k g c]
    using read_session_response_table [OF assms, of lib data] by simp
next
  case False
  then have "fst (geidea_session_try lib cfg ev p language ord ship (session_of t)) = session_of t"
    by (auto simp: geidea_session_try_def Let_def split: http_result.splits option.splits prod.splits)
  then show ?thesis by (simp add: table_session_of)
qed

lemma create_geidea_session_table:
  assumes "unique_ok t" and "p \<in> set t"
  shows "table (fst (create_geidea_session lib cfg ev p language ord ship (session_of t))) = t
         \<or> (\<exists>v. table (fst (create_geidea_session lib cfg ev p language ord ship (session_of t)))
                  = replace_row (p\<lparr>geidea_session_id := v\<rparr>) t)"
proof -
  obtain d sent r where g: "geidea_session_try lib cfg ev p language ord ship (session_of t) = (d, sent, r)"
    by (metis prod_cases3)
  have "table (fst (create_geidea_session lib cfg ev p language ord ship (session_of t))) = table d"
    unfolding create_geidea_session_def g by (simp add: rollback_def split: sum.splits)
  then show ?thesis using geidea_session_try_table [OF assms, of lib cfg ev language ord ship] g by simp
qed

lemma create_geidea_session_sent:
  assumes "PUBLIC_KEY cfg \<noteq> []" and "API_PASSWORD cfg \<noteq> []"
  shows "fst (snd (create_geidea_session lib cfg ev p language ord ship d))
         = [session_request lib cfg (utcnow ev) p language ord ship]"
  using assms
  by (simp add: create_geidea_session_def geidea_session_try_def Let_def
      split: http_result.splits option.splits prod.splits sum.splits)

lemma create_payment_session_row:
  assumes u: "unique_ok t" and f: "uuid4 ev \<notin> set (map merchant_reference_id t)"
  shows "\<exists>q. table (fst (create_payment_session lib cfg ev cu a c language ord ship (session_of t))) = t @ [q]
             \<and> currency q = c \<and> merchant_reference_id q = uuid4 ev \<and> amount q = a \<and> status q = ''PENDING''"
proof -
  let ?p = "inserted_payment ev cu a c ord ship t"
  let ?R = "create_geidea_session lib cfg ev ?p language ord ship (session_of (t @ [?p]))"
  have i: "payment_id ?p \<notin> set (map payment_id t)"
    using next_id_fresh [of t] by (simp add: inserted_payment_def new_payment_def)
  have o: "geidea_order_id ?p = None" and r: "merchant_reference_id ?p = uuid4 ev"
    by (simp_all add: inserted_payment_def new_payment_def)
  have u2: "unique_ok (t @ [?p])" using unique_ok_snoc [OF u i o] r f by simp
  have d: "distinct (map payment_id (t @ ?p # []))" using u2 by (simp add: unique_ok_def)
  have rep: "\<And>v. replace_row (?p\<lparr>geidea_session_id := v\<rparr>) (t @ [?p]) = t @ [?p\<lparr>geidea_session_id := v\<rparr>]"
    using replace_row_split [OF d] by simp
  have tb: "table (fst (create_payment_session lib cfg ev cu a c language ord ship (session_of t)))
            = table (fst ?R)"
    unfolding create_payment_session_fresh [OF u f]
    by (simp add: session_failed_def rollback_def split: prod.splits sum.splits)
  have "table (fst ?R) = t @ [?p] \<or> (\<exists>v. table (fst ?R) = t @ [?p\<lparr>geidea_session_id := v\<rparr>])"
    using create_geidea_session_table [OF u2, of ?p lib cfg ev language ord ship] rep by simp
  then show ?thesis
    unfolding tb by (auto simp: inserted_payment_def new_payment_def)
qed

lemma create_payment_session_sent:
  assumes u: "unique_ok t" and f: "uuid4 ev \<notin> set (map merchant_reference_id t)"
    and k: "PUBLIC_KEY cfg \<noteq> []" "API_PASSWORD cfg \<noteq> []"
  shows "fst (snd (create_payment_session lib cfg ev cu a c language ord ship (session_of t)))
         = [session_request lib cfg (utcnow ev) (inserted_payment ev cu a c ord ship t) language ord ship]"
proof -
  let ?p = "inserted_payment ev cu a c ord ship t"
  let ?R = "create_geidea_session lib cfg ev ?p language ord ship (session_of (t @ [?p]))"
  have "fst (snd (create_payment_session lib cfg ev cu a c language ord ship (session_of t))) = fst (snd ?R)"
    unfolding create_payment_session_fresh [OF u f]
    by (simp add: session_failed_def split: prod.splits sum.splits)
  then show ?thesis using create_geidea_session_sent [OF k] by simp
qed

lemma session_request_fields:
  "py_get (req_json (session_request lib cfg ts p language ord ship)) ''currency'' = Inr (JStr (currency p))"
  "py_get (req_json (session_request lib cfg ts p language ord ship)) ''signature''
     = Inr (JStr (generate_signature lib (PUBLIC_KEY cfg) (float_amount lib p) (currency p)
                    (merchant_reference_id p) (API_PASSWORD cfg) ts))"
  by (simp_all add: session_request_def Let_def)

lemma validate_request_ok:
  assumes "body_amount b = Some a" and "float_gt0 a"
    and "body_currency b = None \<or> (\<exists>c. body_currency b = Some c \<and> length c = 3)"
  shows "validate_request lib b = Inr (CreatePaymentRequest a (spec_currency lib b)
           (case body_language b of None \<Rightarrow> ''en'' | Some l \<Rightarrow> l) (body_order b) (body_shippingAddress b))"
  using assms by (auto simp: validate_request_def spec_currency_def currency_upper_def)

lemma route_create_session_valid:
  assumes "validate_request lib b = Inr (CreatePaymentRequest a c l ord ship)"
  shows "fst (route_create_session lib cfg ev cu b d) = fst (create_payment_session lib cfg ev cu a c l ord ship d)"
    and "fst (snd (route_create_session lib cfg ev cu b d))
         = fst (snd (create_payment_session lib cfg ev cu a c l ord ship d))"
  using assms by (simp_all add: route_create_session_def split: prod.splits sum.splits json.splits)

text \<open>
  C10: a create-session request without a currency is not rejected by the schema and the
  payment created gets the default currency \<open>AED\<close>; a supplied currency (of three
  characters) is upper-cased by the schema (\<open>str.upper\<close>), and the upper-cased code is the
  currency of the payment row, of the request body sent to the gateway and of the signed
  message.
\<close>

theorem request_currency_default_and_upper:
  assumes "unique_ok t" and "uuid4 ev \<notin> set (map merchant_reference_id t)"
    and "PUBLIC_KEY cfg \<noteq> []" and "API_PASSWORD cfg \<noteq> []"
    and "body_amount b = Some a" and "float_gt0 a"
    and "body_currency b = None \<or> (\<exists>c. body_currency b = Some c \<and> length c = 3)"
  shows "(body_currency b = None \<longrightarrow> spec_currency lib b = ''AED'')
       \<and> (\<forall>c. body_currency b = Some c \<longrightarrow> spec_currency lib b = str_upper lib c)
       \<and> validate_request lib b = Inr (CreatePaymentRequest a (spec_currency lib b)
           (case body_language b of None \<Rightarrow> ''en'' | Some l \<Rightarrow> l) (body_order b) (body_shippingAddress b))
       \<and> (\<exists>q. table (fst (route_create_session lib cfg ev cu b (session_of t))) = t @ [q]
               \<and> currency q = spec_currency lib b)
       \<and> (\<exists>request. fst (snd (route_create_session lib cfg ev cu b (session_of t))) = [request]
               \<and> py_get (req_json request) ''currency'' = Inr (JStr (spec_currency lib b))
               \<and> py_get (req_json request) ''signature''
                    = Inr (JStr (generate_signature lib (PUBLIC_KEY cfg)
                                   (float_of_decimal lib (numeric_result a)) (spec_currency lib b)
                                   (uuid4 ev) (API_PASSWORD cfg) (utcnow ev))))"
proof -
  let ?l = "case body_language b of None \<Rightarrow> ''en'' | Some l \<Rightarrow> l"
  let ?p = "inserted_payment ev cu a (spec_currency lib b) (body_order b) (body_shippingAddress b) t"
  note v = validate_request_ok [OF assms(5,6,7), of lib]
  have row: "\<exists>q. table (fst (route_create_session lib cfg ev cu b (session_of t))) = t @ [q]
               \<and> currency q = spec_currency lib b"
    unfolding route_create_session_valid(1) [OF v]
    using create_payment_session_row [OF assms(1,2), of lib cfg cu a "spec_currency lib b" ?l
        "body_order b" "body_shippingAddress b"] by blast
  have pf: "currency ?p = spec_currency lib b" "float_amount lib ?p = float_of_decimal lib (numeric_result a)"
    "merchant_reference_id ?p = uuid4 ev"
    by (simp_all add: inserted_payment_def new_payment_def float_amount_def)
  have sent: "fst (snd (route_create_session lib cfg ev cu b (session_of t)))
        = [session_request lib cfg (utcnow ev) ?p ?l (body_order b) (body_shippingAddress b)]"
    unfolding route_create_session_valid(2) [OF v]
    by (rule create_payment_session_sent [OF assms(1,2,3,4)])
  have req: "\<exists>request. fst (snd (route_create_session lib cfg ev cu b (session_of t))) = [request]
               \<and> py_get (req_json request) ''currency'' = Inr (JStr (spec_currency lib b))
               \<and> py_get (req_json request) ''signature''
                    = Inr (JStr (generate_signature lib (PUBLIC_KEY cfg)
                                   (float_of_decimal lib (numeric_result a)) (spec_currency lib b)
                                   (uuid4 ev) (API_PASSWORD cfg) (utcnow ev)))"
    unfolding sent using session_request_fields [of lib cfg "utcnow ev" ?p ?l "body_order b" "body_shippingAddress b"]
    unfolding pf by simp
  show ?thesis using v row req by (simp add: spec_currency_def)
qed

theorem request_currency_default_and_upper_witness:
  "validate_request echo_lib (request_of None)
     = Inr (CreatePaymentRequest (Finite False 100 0) ''AED'' ''en'' None None)
   \<and> map currency (table (fst (route_create_session echo_lib sample_config
        (gateway_env (Response 200 ''{...}'' (Some ok_response))) 7 (request_of None) (session_of [sample_payment]))))
       = [''AED'', ''AED'']
   \<and> validate_request echo_lib (request_of (Some ''egp''))
       = Inr (CreatePaymentRequest (Finite False 100 0) ''EGP'' ''en'' None None)
   \<and> map currency (table (fst (route_create_session echo_lib sample_config
        (gateway_env (Response 200 ''{...}'' (Some ok_response))) 7 (request_of (Some ''egp'')) (session_of [sample_payment]))))
       = [''AED'', ''EGP'']"
proof -
  let ?ev = "gateway_env (Response 200 ''{...}'' (Some ok_response))"
  have f: "uuid4 ?ev \<notin> set (map merchant_reference_id [sample_payment])"
    by (simp add: gateway_env_def sample_payment_def)
  have k: "PUBLIC_KEY sample_config \<noteq> []" "API_PASSWORD sample_config \<noteq> []"
    by (simp_all add: sample_config_def)
  have a: "body_amount (request_of c) = Some (Finite False 100 0)" for c by (simp add: request_of_def)
  have g: "float_gt0 (Finite False 100 0)" by simp
  have c1: "body_currency (request_of None) = None \<or> (\<exists>c. body_currency (request_of None) = Some c \<and> length c = 3)"
    by (simp add: request_of_def)
  have c2: "body_currency (request_of (Some ''egp'')) = None
            \<or> (\<exists>c. body_currency (request_of (Some ''egp'')) = Some c \<and> length c = 3)"
    by (simp add: request_of_def)
  have s1: "spec_currency echo_lib (request_of None) = ''AED''"
    by (simp add: spec_currency_def request_of_def)
  have s2: "spec_currency echo_lib (request_of (Some ''egp'')) = ''EGP''"
    by (simp add: spec_currency_def request_of_def echo_lib_def py_upper_def upper_char_def)
  have r: "body_language (request_of c) = None" "body_order (request_of c) = None"
    "body_shippingAddress (request_of c) = None" for c by (simp_all add: request_of_def)
  have cs: "currency sample_payment = ''AED''" by (simp add: sample_payment_def)
  note t1 = request_currency_default_and_upper [OF sample_unique f k a g c1, of echo_lib 7, unfolded s1 r]
  note t2 = request_currency_default_and_upper [OF sample_unique f k a g c2, of echo_lib 7, unfolded s2 r]
  from t1 obtain q1 where q1: "table (fst (route_create_session echo_lib sample_config ?ev 7 (request_of None)
      (session_of [sample_payment]))) = [sample_payment] @ [q1]" "currency q1 = ''AED''" by blast
  from t2 obtain q2 where q2: "table (fst (route_create_session echo_lib sample_config ?ev 7 (request_of (Some ''egp''))
      (session_of [sample_payment]))) = [sample_payment] @ [q2]" "currency q2 = ''EGP''" by blast
  show ?thesis using t1 t2 unfolding q1 q2 by (simp add: cs q1(2) q2(2))
qed

end
